theory Spec2Isabelle
  imports Main
begin

section \<open>The flowchart generator \<^verbatim>\<open>docs/generate_flowcharts_pdf.py\<close>\<close>

text \<open>
  The script assembles a list of layout objects (the \<^emph>\<open>story\<close>) and hands it to the
  layout library. The model keeps the objects as data: a constructor call of the
  library is a constructor of a datatype, holding the arguments the script passes.
  What the library does with them (measuring, pagination, serialisation) is not
  part of the script and is not modelled.
\<close>

subsection \<open>Values passed to the layout library\<close>

text \<open>
  Colours: \<^verbatim>\<open>HexColor('#rrggbb')\<close> keeps its argument; \<^verbatim>\<open>white\<close> is the
  library's constant.
\<close>

datatype color = HexColor string | white

definition TEAL :: color where "TEAL = HexColor ''#14b8a6''"
definition TEAL_DARK :: color where "TEAL_DARK = HexColor ''#0d9488''"
definition TEAL_BG :: color where "TEAL_BG = HexColor ''#0d3d38''"
definition CYAN :: color where "CYAN = HexColor ''#00ffe5''"
definition PINK :: color where "PINK = HexColor ''#ff6ec7''"
definition AMBER :: color where "AMBER = HexColor ''#f59e0b''"
definition CORAL :: color where "CORAL = HexColor ''#ff6b6b''"
definition PURPLE :: color where "PURPLE = HexColor ''#a78bfa''"
definition GREEN :: color where "GREEN = HexColor ''#22c55e''"
definition BLUE :: color where "BLUE = HexColor ''#3b82f6''"
definition DARK_BG :: color where "DARK_BG = HexColor ''#0A1A1A''"
definition SURFACE_MID :: color where "SURFACE_MID = HexColor ''#111827''"
definition SURFACE_CARD :: color where "SURFACE_CARD = HexColor ''#1a2332''"
definition WHITE :: color where "WHITE = white"
definition WHITE_70 :: color where "WHITE_70 = HexColor ''#b3b3b3''"
definition WHITE_40 :: color where "WHITE_40 = HexColor ''#666666''"

text \<open>
  \<^verbatim>\<open>color.hexval()\<close> of the library gives \<^verbatim>\<open>0x\<close> followed by the six hexadecimal
  digits of the colour; for a colour built from a lower-case \<^verbatim>\<open>'#rrggbb'\<close> these are
  the digits of the argument. The script only applies it to such colours.
\<close>

fun hexval :: "color \<Rightarrow> string" where
  "hexval (HexColor s) = ''0x'' @ drop 1 s"
| "hexval white = ''0xffffff''"

text \<open>
  Lengths are floating-point expressions over the library's constants \<^verbatim>\<open>inch\<close> and
  \<^verbatim>\<open>landscape(A4)\<close>. They are kept as the expressions the script writes, so that no
  rounding is guessed: \<open>Dec m k\<close> is the decimal literal \<open>m / 10^k\<close> (\<^verbatim>\<open>2.8\<close> is
  \<open>Dec 28 1\<close>), \<open>N\<close> an integer literal, \<open>PyNone\<close> the value \<^verbatim>\<open>None\<close>.
\<close>

datatype num =
    N int
  | Dec int nat
  | INCH
  | PAGE_W
  | PAGE_H
  | Mul num num
  | Sub num num
  | Div num num
  | PyNone

datatype align = TA_CENTER | TA_LEFT

text \<open>
  \<^verbatim>\<open>ParagraphStyle(name, parent=styles[...], ...)\<close>: the parent is named by its key in
  the sample style sheet; a keyword the script does not pass is \<open>None\<close>.
\<close>

record pstyle =
  style_name :: string
  parent :: string
  fontSize :: nat
  textColor :: color
  fontName :: string
  alignment :: align
  leading :: "nat option"
  spaceBefore :: "nat option"
  spaceAfter :: "nat option"

definition title_style :: pstyle where
  "title_style = \<lparr> style_name = ''FlowTitle'', parent = ''Title'',
     fontSize = 24, textColor = WHITE, fontName = ''Helvetica-Bold'',
     alignment = TA_CENTER, leading = None, spaceBefore = None, spaceAfter = Some 6 \<rparr>"

definition subtitle_style :: pstyle where
  "subtitle_style = \<lparr> style_name = ''FlowSubtitle'', parent = ''Normal'',
     fontSize = 11, textColor = WHITE_70, fontName = ''Helvetica'',
     alignment = TA_CENTER, leading = None, spaceBefore = None, spaceAfter = Some 20 \<rparr>"

definition box_title_style :: pstyle where
  "box_title_style = \<lparr> style_name = ''BoxTitle'', parent = ''Normal'',
     fontSize = 11, textColor = WHITE, fontName = ''Helvetica-Bold'',
     alignment = TA_CENTER, leading = Some 14, spaceBefore = None, spaceAfter = None \<rparr>"

definition box_body_style :: pstyle where
  "box_body_style = \<lparr> style_name = ''BoxBody'', parent = ''Normal'',
     fontSize = 8, textColor = WHITE_70, fontName = ''Helvetica'',
     alignment = TA_CENTER, leading = Some 10, spaceBefore = None, spaceAfter = None \<rparr>"

definition phase_title_style :: pstyle where
  "phase_title_style = \<lparr> style_name = ''PhaseTitle'', parent = ''Normal'',
     fontSize = 12, textColor = WHITE, fontName = ''Helvetica-Bold'',
     alignment = TA_LEFT, leading = Some 14, spaceBefore = None, spaceAfter = None \<rparr>"

definition phase_body_style :: pstyle where
  "phase_body_style = \<lparr> style_name = ''PhaseBody'', parent = ''Normal'',
     fontSize = 9, textColor = WHITE_70, fontName = ''Helvetica'',
     alignment = TA_LEFT, leading = Some 12, spaceBefore = None, spaceAfter = None \<rparr>"

definition layer_title_style :: pstyle where
  "layer_title_style = \<lparr> style_name = ''LayerTitle'', parent = ''Normal'',
     fontSize = 11, textColor = WHITE, fontName = ''Helvetica-Bold'',
     alignment = TA_CENTER, leading = Some 14, spaceBefore = None, spaceAfter = None \<rparr>"

definition layer_body_style :: pstyle where
  "layer_body_style = \<lparr> style_name = ''LayerBody'', parent = ''Normal'',
     fontSize = 8, textColor = WHITE_70, fontName = ''Helvetica'',
     alignment = TA_CENTER, leading = Some 10, spaceBefore = None, spaceAfter = None \<rparr>"

definition arrow_style :: pstyle where
  "arrow_style = \<lparr> style_name = ''Arrow'', parent = ''Normal'',
     fontSize = 16, textColor = TEAL, fontName = ''Helvetica-Bold'',
     alignment = TA_CENTER, leading = None, spaceBefore = Some 2, spaceAfter = Some 2 \<rparr>"

definition small_arrow_style :: pstyle where
  "small_arrow_style = \<lparr> style_name = ''SmallArrow'', parent = ''Normal'',
     fontSize = 12, textColor = TEAL, fontName = ''Helvetica-Bold'',
     alignment = TA_CENTER, leading = None, spaceBefore = Some 1, spaceAfter = Some 1 \<rparr>"

text \<open>
  A table style command is a Python tuple; its components are tagged by their kind:
  a string, a cell coordinate, a number, a colour, or a list of numbers.
\<close>

datatype cmd_arg = S string | At int int | X num | Col color | L "num list"

type_synonym style_cmd = "cmd_arg list"

text \<open>
  The flowables. A table cell holds what the script puts into it: a list of
  flowables, one flowable, or a string. \<open>Table data colWidths rowHeights cmds\<close> has the
  keyword arguments as options (\<open>None\<close> when the script leaves the keyword out) and
  the commands set by \<^verbatim>\<open>setStyle\<close>.
\<close>

datatype flowable =
    Paragraph string pstyle
  | Spacer num num
  | Table "cell list list" "num list option" "num list option" "style_cmd list"
  | PageBreak
and cell =
    Flowables "flowable list"
  | Single flowable
  | Str string

fun setStyle :: "flowable \<Rightarrow> style_cmd list \<Rightarrow> flowable" where
  "setStyle (Table d cw rh cmds) new = Table d cw rh (cmds @ new)"
| "setStyle f new = f"

text \<open>
  Python truth value of a cell entry in \<^verbatim>\<open>if cell\<close>: a list and a string are true when
  not empty, a flowable object is true.
\<close>

fun truthy :: "cell \<Rightarrow> bool" where
  "truthy (Flowables fs) = (fs \<noteq> [])"
| "truthy (Str s) = (s \<noteq> [])"
| "truthy (Single f) = True"

subsection \<open>Python helpers\<close>

datatype error = IndexError | Raised string

text \<open>\<^verbatim>\<open>xs[i]\<close> for an index that is not negative: out of range raises.\<close>

definition py_getitem :: "'a list \<Rightarrow> nat \<Rightarrow> error + 'a" where
  "py_getitem xs i = (if i < length xs then Inr (xs ! i) else Inl IndexError)"

text \<open>\<^verbatim>\<open>body.replace('\n', '<br/>')\<close>: the pattern is one character.\<close>

fun replace_newline :: "string \<Rightarrow> string" where
  "replace_newline [] = []"
| "replace_newline (c # cs) =
     (if c = CHR ''\<newline>'' then ''<br/>'' @ replace_newline cs else c # replace_newline cs)"

text \<open>\<^verbatim>\<open>sep.join(xs)\<close>.\<close>

fun py_join :: "string \<Rightarrow> string list \<Rightarrow> string" where
  "py_join sep [] = []"
| "py_join sep [x] = x"
| "py_join sep (x # y # ys) = x @ sep @ py_join sep (y # ys)"

text \<open>\<^verbatim>\<open>range(lo, hi, step)\<close> for a positive step.\<close>

definition py_range_step :: "nat \<Rightarrow> nat \<Rightarrow> nat \<Rightarrow> nat list" where
  "py_range_step lo hi step = map (\<lambda>k. lo + k * step) [0 ..< (hi - lo + step - 1) div step]"

subsection \<open>Page 1: the journey grid\<close>

definition journey_steps :: "(string \<times> string) list" where
  "journey_steps = [
    (''1. Discovery'', ''Bot discovers Moltblox via\<newline>MCP tools or Submolt posts''),
    (''2. Connect Wallet'', ''SIWE authentication\<newline>Base chain wallet connect''),
    (''3. Browse Games'', ''Explore trending, search,\<newline>filter by genre/rating''),
    (''4. Play Game'', ''Launch WASM sandbox\<newline>Real-time or turn-based''),
    (''5. Earn MOLT'', ''Win tournaments, sell items,\<newline>create popular games''),
    (''6. Create Game'', ''Use BaseGame template\<newline>5 methods to implement''),
    (''7. Publish & Monetize'', ''Set price, create items\<newline>85% revenue to creator''),
    (''8. Community'', ''Post in Submolts\<newline>Rate games, give feedback''),
    (''9. Return (Heartbeat)'', ''Auto-visit every 4 hours\<newline>Check earnings & trending'')]"

text \<open>
  The inner loop \<^verbatim>\<open>for col_idx in range(3)\<close>, with \<open>row_data\<close> as accumulator. The
  list of steps is a parameter, so that the guard is checked for every list.
\<close>

fun row_data_loop ::
  "(string \<times> string) list \<Rightarrow> nat \<Rightarrow> nat list \<Rightarrow> cell list \<Rightarrow> error + cell list" where
  "row_data_loop steps row_idx [] row_data = Inr row_data"
| "row_data_loop steps row_idx (col_idx # rest) row_data =
     (let step_idx = row_idx * 3 + col_idx in
      if step_idx < length steps then
        (case py_getitem steps step_idx of
           Inl e \<Rightarrow> Inl e
         | Inr (title, body) \<Rightarrow>
             (let cell_content = [
                    Paragraph title box_title_style,
                    Spacer (N 1) (N 4),
                    Paragraph (replace_newline body) box_body_style]
              in row_data_loop steps row_idx rest (row_data @ [Flowables cell_content])))
      else row_data_loop steps row_idx rest (row_data @ [Str '''']))"

text \<open>\<^verbatim>\<open>for i, cell in enumerate(row_data)\<close>: the arrow columns. \<open>n\<close> is \<^verbatim>\<open>len(row_data)\<close>.\<close>

fun full_row_loop :: "nat \<Rightarrow> (nat \<times> cell) list \<Rightarrow> cell list \<Rightarrow> cell list" where
  "full_row_loop n [] full_row = full_row"
| "full_row_loop n ((i, c) # rest) full_row =
     (let full_row1 = full_row @ [c] in
      if int i < int n - 1 \<and> truthy c
      then full_row_loop n rest (full_row1 @ [Single (Paragraph ''&#8594;'' arrow_style)])
      else full_row_loop n rest full_row1)"

text \<open>\<^verbatim>\<open>for i in range(len(full_row))\<close>: the column widths.\<close>

fun col_widths_loop :: "nat list \<Rightarrow> num list \<Rightarrow> num list" where
  "col_widths_loop [] col_widths = col_widths"
| "col_widths_loop (i # rest) col_widths =
     (if i mod 2 = 0
      then col_widths_loop rest (col_widths @ [Mul (Dec 28 1) INCH])
      else col_widths_loop rest (col_widths @ [Mul (Dec 5 1) INCH]))"

text \<open>\<^verbatim>\<open>for i in range(0, len(full_row), 2)\<close>: the style of the box cells.\<close>

fun box_style_loop :: "cell list \<Rightarrow> nat list \<Rightarrow> style_cmd list \<Rightarrow> error + style_cmd list" where
  "box_style_loop full_row [] box_style_cmds = Inr box_style_cmds"
| "box_style_loop full_row (i # rest) box_style_cmds =
     (case py_getitem full_row i of
        Inl e \<Rightarrow> Inl e
      | Inr c \<Rightarrow>
          if truthy c
          then box_style_loop full_row rest (box_style_cmds @ [
                 [S ''BACKGROUND'', At (int i) 0, At (int i) 0, Col SURFACE_CARD],
                 [S ''BOX'', At (int i) 0, At (int i) 0, X (Dec 15 1), Col TEAL],
                 [S ''ROUNDEDCORNERS'', L [N 8, N 8, N 8, N 8]]])
          else box_style_loop full_row rest box_style_cmds)"

definition down_arrow_table :: flowable where
  "down_arrow_table =
     setStyle
       (Table [[Single (Paragraph ''&#8595;'' arrow_style)]]
          (Some [Sub PAGE_W (Mul (Dec 12 1) INCH)])
          (Some [Mul (Dec 35 2) INCH]) [])
       [[S ''ALIGN'', At 0 0, At 0 0, S ''CENTER''],
        [S ''VALIGN'', At 0 0, At 0 0, S ''MIDDLE'']]"

text \<open>
  The body of the outer loop up to \<^verbatim>\<open>t.setStyle(TableStyle(box_style_cmds))\<close>: the table
  of one grid row.
\<close>

definition journey_row_table :: "(string \<times> string) list \<Rightarrow> nat \<Rightarrow> error + flowable" where
  "journey_row_table steps row_idx =
     (case row_data_loop steps row_idx [0 ..< 3] [] of
        Inl e \<Rightarrow> Inl e
      | Inr row_data \<Rightarrow>
          (let full_row = full_row_loop (length row_data) (enumerate 0 row_data) [];
               col_widths = col_widths_loop [0 ..< length full_row] [];
               t = Table [full_row] (Some col_widths) (Some [Mul (Dec 11 1) INCH]) [];
               box_style_cmds0 = [
                 [S ''VALIGN'', At 0 0, At (-1) (-1), S ''MIDDLE''],
                 [S ''ALIGN'', At 0 0, At (-1) (-1), S ''CENTER''],
                 [S ''TOPPADDING'', At 0 0, At (-1) (-1), X (N 8)],
                 [S ''BOTTOMPADDING'', At 0 0, At (-1) (-1), X (N 8)],
                 [S ''LEFTPADDING'', At 0 0, At (-1) (-1), X (N 6)],
                 [S ''RIGHTPADDING'', At 0 0, At (-1) (-1), X (N 6)]]
           in case box_style_loop full_row (py_range_step 0 (length full_row) 2) box_style_cmds0 of
                Inl e \<Rightarrow> Inl e
              | Inr box_style_cmds \<Rightarrow> Inr (setStyle t box_style_cmds)))"

text \<open>The outer loop \<^verbatim>\<open>for row_idx in range(3)\<close>, with the story as accumulator.\<close>

fun journey_rows_loop ::
  "(string \<times> string) list \<Rightarrow> nat list \<Rightarrow> flowable list \<Rightarrow> error + flowable list" where
  "journey_rows_loop steps [] story = Inr story"
| "journey_rows_loop steps (row_idx # rest) story =
     (case journey_row_table steps row_idx of
        Inl e \<Rightarrow> Inl e
      | Inr t \<Rightarrow>
          (let story1 = story @ [t] in
           if row_idx < 2
           then journey_rows_loop steps rest
                  (story1 @ [Spacer (N 1) (N 2), down_arrow_table, Spacer (N 1) (N 2)])
           else journey_rows_loop steps rest story1))"

definition page1 :: "flowable list \<Rightarrow> error + flowable list" where
  "page1 story =
     (case journey_rows_loop journey_steps [0 ..< 3]
             (story @ [
                Paragraph ''User Journey Flow'' title_style,
                Paragraph ''How bots and players interact with the Moltblox platform''
                  subtitle_style]) of
        Inl e \<Rightarrow> Inl e
      | Inr story1 \<Rightarrow> Inr (story1 @ [PageBreak]))"

subsection \<open>Page 2: the roadmap\<close>

definition phases :: "(color \<times> string \<times> string \<times> string list) list" where
  "phases = [
    (TEAL, ''Phase 1: Foundation'', ''Database + Auth'', [
       ''PostgreSQL with Prisma ORM schema'',
       ''SIWE wallet-based authentication'',
       ''JWT token management + Redis sessions'',
       ''Replace all mock routes with real queries'']),
    (BLUE, ''Phase 2: Blockchain'', ''Contracts + Wallet'', [
       ''Deploy MoltToken, GameMarketplace, TournamentManager to Base Sepolia'',
       ''Add wagmi + RainbowKit to frontend'',
       ''Wire purchase flow through smart contracts'',
       ''Test token transfers end-to-end'']),
    (PURPLE, ''Phase 3: Integration'',
       ''Frontend '' @ [CHR 0xE2, CHR 0x86, CHR 0x94] @ '' API'', [
       ''API client utility with auth headers'',
       ''React Query for data fetching + caching'',
       ''Replace all mock data with live API calls'',
       ''WebSocket connection for real-time features'']),
    (AMBER, ''Phase 4: Infrastructure'', ''Deploy'', [
       ''Vercel (frontend) + Railway (API) + Neon (DB)'',
       ''Upstash Redis for caching + sessions'',
       ''Domain + SSL via Cloudflare'',
       ''Environment variables + secrets management'']),
    (GREEN, ''Phase 5: Polish'', ''Pre-Launch'', [
       ''Cloudflare R2 for file/asset storage'',
       ''Sentry error monitoring'',
       ''Rate limiting + security review'',
       ''Load testing + documentation''])]"

text \<open>
  The character U+2194 (left right arrow) of the third subtitle is written as its three
  UTF-8 bytes.
\<close>

definition phase_sub_style :: pstyle where
  "phase_sub_style = \<lparr> style_name = ''PhaseSub'', parent = ''Normal'',
     fontSize = 9, textColor = WHITE_40, fontName = ''Helvetica-Oblique'',
     alignment = TA_LEFT, leading = Some 11, spaceBefore = None, spaceAfter = None \<rparr>"

definition phase_table :: "color \<times> string \<times> string \<times> string list \<Rightarrow> flowable" where
  \<open>phase_table ph =
     (case ph of (color, title, subtitle, items) \<Rightarrow>
        (let bullet_text = py_join ''<br/>'' (map (\<lambda>item. ''&bull; '' @ item) items);
             phase_cell = [
               Paragraph (''<font color="#'' @ drop 2 (hexval color) @ ''">'' @ title @ ''</font>'')
                 phase_title_style,
               Paragraph (''<i>'' @ subtitle @ ''</i>'') phase_sub_style,
               Spacer (N 1) (N 4),
               Paragraph bullet_text phase_body_style];
             t = Table [[Flowables phase_cell]]
                   (Some [Sub PAGE_W (Mul (Dec 14 1) INCH)]) (Some [PyNone]) []
         in setStyle t [
              [S ''BACKGROUND'', At 0 0, At 0 0, Col SURFACE_CARD],
              [S ''BOX'', At 0 0, At 0 0, X (N 2), Col color],
              [S ''TOPPADDING'', At 0 0, At 0 0, X (N 10)],
              [S ''BOTTOMPADDING'', At 0 0, At 0 0, X (N 10)],
              [S ''LEFTPADDING'', At 0 0, At 0 0, X (N 14)],
              [S ''RIGHTPADDING'', At 0 0, At 0 0, X (N 14)],
              [S ''VALIGN'', At 0 0, At 0 0, S ''TOP'']]))\<close>

definition phase_arrow_table :: flowable where
  "phase_arrow_table =
     setStyle
       (Table [[Single (Paragraph ''&#8595;'' small_arrow_style)]]
          (Some [Sub PAGE_W (Mul (Dec 14 1) INCH)])
          (Some [Mul (Dec 25 2) INCH]) [])
       [[S ''ALIGN'', At 0 0, At 0 0, S ''CENTER''],
        [S ''VALIGN'', At 0 0, At 0 0, S ''MIDDLE'']]"

text \<open>
  \<^verbatim>\<open>for i, (color, title, subtitle, items) in enumerate(phases)\<close>; \<open>n\<close> is
  \<^verbatim>\<open>len(phases)\<close>.
\<close>

fun phases_loop ::
  "nat \<Rightarrow> (nat \<times> (color \<times> string \<times> string \<times> string list)) list \<Rightarrow> flowable list
     \<Rightarrow> flowable list" where
  "phases_loop n [] story = story"
| "phases_loop n ((i, ph) # rest) story =
     (let story1 = story @ [phase_table ph] in
      if int i < int n - 1
      then phases_loop n rest
             (story1 @ [Spacer (N 1) (N 2), phase_arrow_table, Spacer (N 1) (N 2)])
      else phases_loop n rest story1)"

definition page2 :: "flowable list \<Rightarrow> flowable list" where
  "page2 story =
     phases_loop (length phases) (enumerate 0 phases)
       (story @ [
          Paragraph ''Implementation Roadmap'' title_style,
          Paragraph ''5-phase path from development to production launch'' subtitle_style])
     @ [PageBreak]"

subsection \<open>Page 3: the architecture layers\<close>

definition layers :: "(color \<times> string \<times> string) list" where
  "layers = [
    (HexColor ''#06b6d4'', ''Clients'',
       ''Web Browser  |  MCP Agents (OpenClaw/Clawdbots)  |  Arena SDK  |  WebSocket Clients''),
    (TEAL, ''Frontend'',
       ''Next.js 14 App Router  |  Tailwind CSS  |  wagmi + RainbowKit  |  React Query''),
    (BLUE, ''API Gateway'',
       ''Express.js  |  SIWE Auth Middleware  |  JWT Validation  |  Rate Limiting  |  WebSocket (ws)''),
    (PURPLE, ''Services'',
       ''GamePublishingService  |  PurchaseService  |  TournamentService  |  BracketGenerator\<newline>DiscoveryService  |  EloSystem  |  RankedMatchmaker  |  LeaderboardService  |  SpectatorHub''),
    (AMBER, ''Data Layer'',
       ''PostgreSQL (Prisma ORM)  |  Redis (Upstash)  |  Cloudflare R2 (Assets)  |  WASM Runtime''),
    (GREEN, ''Blockchain'',
       ''Base L2 (Ethereum)  |  MoltToken (ERC-20)  |  GameMarketplace  |  TournamentManager'')]"

definition layer_table :: "color \<times> string \<times> string \<Rightarrow> flowable" where
  \<open>layer_table ly =
     (case ly of (color, title, body) \<Rightarrow>
        (let cell = [
               Paragraph (''<font color="#'' @ drop 2 (hexval color) @ ''"><b>'' @ title
                            @ ''</b></font>'') layer_title_style,
               Spacer (N 1) (N 3),
               Paragraph (replace_newline body) layer_body_style];
             t = Table [[Flowables cell]]
                   (Some [Sub PAGE_W (Mul (Dec 14 1) INCH)]) (Some [PyNone]) []
         in setStyle t [
              [S ''BACKGROUND'', At 0 0, At 0 0, Col SURFACE_CARD],
              [S ''BOX'', At 0 0, At 0 0, X (N 2), Col color],
              [S ''TOPPADDING'', At 0 0, At 0 0, X (N 10)],
              [S ''BOTTOMPADDING'', At 0 0, At 0 0, X (N 10)],
              [S ''LEFTPADDING'', At 0 0, At 0 0, X (N 12)],
              [S ''RIGHTPADDING'', At 0 0, At 0 0, X (N 12)],
              [S ''VALIGN'', At 0 0, At 0 0, S ''MIDDLE''],
              [S ''ALIGN'', At 0 0, At 0 0, S ''CENTER'']]))\<close>

definition layer_arrow_table :: flowable where
  "layer_arrow_table =
     setStyle
       (Table [[Single (Paragraph ''&#8595;'' small_arrow_style)]]
          (Some [Sub PAGE_W (Mul (Dec 14 1) INCH)])
          (Some [Mul (Dec 22 2) INCH]) [])
       [[S ''ALIGN'', At 0 0, At 0 0, S ''CENTER''],
        [S ''VALIGN'', At 0 0, At 0 0, S ''MIDDLE'']]"

text \<open>\<^verbatim>\<open>for i, (color, title, body) in enumerate(layers)\<close>; \<open>n\<close> is \<^verbatim>\<open>len(layers)\<close>.\<close>

fun layers_loop ::
  "nat \<Rightarrow> (nat \<times> (color \<times> string \<times> string)) list \<Rightarrow> flowable list \<Rightarrow> flowable list" where
  "layers_loop n [] story = story"
| "layers_loop n ((i, ly) # rest) story =
     (let story1 = story @ [layer_table ly] in
      if int i < int n - 1
      then layers_loop n rest (story1 @ [layer_arrow_table])
      else layers_loop n rest story1)"

definition page3 :: "flowable list \<Rightarrow> flowable list" where
  "page3 story =
     layers_loop (length layers) (enumerate 0 layers)
       (story @ [
          Paragraph ''System Architecture'' title_style,
          Paragraph ''Layered architecture from clients to blockchain'' subtitle_style])
     @ [PageBreak]"

subsection \<open>Page 4: the revenue flow\<close>

definition player_cell :: "flowable list" where
  \<open>player_cell = [
     Paragraph ''<font color="#06b6d4"><b>Player / Bot</b></font>'' layer_title_style,
     Spacer (N 1) (N 3),
     Paragraph ''Purchases game items, enters tournaments,<br/>buys cosmetics with MOLT tokens''
       layer_body_style]\<close>

definition player_table :: flowable where
  "player_table =
     setStyle
       (Table [[Flowables player_cell]] (Some [Sub PAGE_W (Mul (Dec 14 1) INCH)]) None [])
       [[S ''BACKGROUND'', At 0 0, At 0 0, Col SURFACE_CARD],
        [S ''BOX'', At 0 0, At 0 0, X (N 2), Col (HexColor ''#06b6d4'')],
        [S ''TOPPADDING'', At 0 0, At 0 0, X (N 10)],
        [S ''BOTTOMPADDING'', At 0 0, At 0 0, X (N 10)],
        [S ''LEFTPADDING'', At 0 0, At 0 0, X (N 12)],
        [S ''RIGHTPADDING'', At 0 0, At 0 0, X (N 12)],
        [S ''VALIGN'', At 0 0, At 0 0, S ''MIDDLE''],
        [S ''ALIGN'', At 0 0, At 0 0, S ''CENTER'']]"

definition payment_arrow_table :: flowable where
  "payment_arrow_table =
     setStyle
       (Table [[Single (Paragraph ''&#8595;  MOLT Payment  &#8595;'' small_arrow_style)]]
          (Some [Sub PAGE_W (Mul (Dec 14 1) INCH)])
          (Some [Mul (Dec 3 1) INCH]) [])
       [[S ''ALIGN'', At 0 0, At 0 0, S ''CENTER''],
        [S ''VALIGN'', At 0 0, At 0 0, S ''MIDDLE'']]"

definition contract_cell :: "flowable list" where
  \<open>contract_cell = [
     Paragraph ''<font color="#f59e0b"><b>GameMarketplace Smart Contract</b></font>''
       layer_title_style,
     Spacer (N 1) (N 3),
     Paragraph ''On-chain escrow &amp; automatic split on Base L2'' layer_body_style]\<close>

definition contract_table :: flowable where
  "contract_table =
     setStyle
       (Table [[Flowables contract_cell]] (Some [Sub PAGE_W (Mul (Dec 14 1) INCH)]) None [])
       [[S ''BACKGROUND'', At 0 0, At 0 0, Col SURFACE_CARD],
        [S ''BOX'', At 0 0, At 0 0, X (N 2), Col AMBER],
        [S ''TOPPADDING'', At 0 0, At 0 0, X (N 10)],
        [S ''BOTTOMPADDING'', At 0 0, At 0 0, X (N 10)],
        [S ''LEFTPADDING'', At 0 0, At 0 0, X (N 12)],
        [S ''RIGHTPADDING'', At 0 0, At 0 0, X (N 12)],
        [S ''VALIGN'', At 0 0, At 0 0, S ''MIDDLE''],
        [S ''ALIGN'', At 0 0, At 0 0, S ''CENTER'']]"

definition split_left_style :: pstyle where
  "split_left_style = \<lparr> style_name = ''SplitLeft'', parent = ''Normal'',
     fontSize = 10, textColor = GREEN, fontName = ''Helvetica-Bold'',
     alignment = TA_CENTER, leading = Some 12, spaceBefore = None, spaceAfter = None \<rparr>"

definition split_right_style :: pstyle where
  "split_right_style = \<lparr> style_name = ''SplitRight'', parent = ''Normal'',
     fontSize = 10, textColor = CORAL, fontName = ''Helvetica-Bold'',
     alignment = TA_CENTER, leading = Some 12, spaceBefore = None, spaceAfter = None \<rparr>"

definition split_label :: flowable where
  "split_label =
     setStyle
       (Table [[Single (Paragraph ''&#8601;  85% Creator Share'' split_left_style),
                Single (Paragraph ''15% Platform Fee  &#8600;'' split_right_style)]]
          (Some [Div (Sub PAGE_W (Mul (Dec 14 1) INCH)) (N 2),
                 Div (Sub PAGE_W (Mul (Dec 14 1) INCH)) (N 2)])
          (Some [Mul (Dec 3 1) INCH]) [])
       [[S ''ALIGN'', At 0 0, At (-1) (-1), S ''CENTER''],
        [S ''VALIGN'', At 0 0, At (-1) (-1), S ''MIDDLE'']]"

definition creator_cell :: "flowable list" where
  \<open>creator_cell = [
     Paragraph ''<font color="#22c55e"><b>Game Creator</b></font>'' layer_title_style,
     Spacer (N 1) (N 3),
     Paragraph ''85% of all purchases<br/>Direct to wallet, instant<br/>No minimum payout''
       layer_body_style]\<close>

definition platform_cell :: "flowable list" where
  \<open>platform_cell = [
     Paragraph ''<font color="#ff6b6b"><b>Platform Treasury</b></font>'' layer_title_style,
     Spacer (N 1) (N 3),
     Paragraph ''15% platform fee<br/>Funds: tournaments, infra,<br/>development, moderation''
       layer_body_style]\<close>

definition destination_table :: flowable where
  "destination_table =
     setStyle
       (Table [[Flowables creator_cell, Flowables platform_cell]]
          (Some [Div (Sub PAGE_W (Mul (Dec 18 1) INCH)) (N 2),
                 Div (Sub PAGE_W (Mul (Dec 18 1) INCH)) (N 2)])
          None [])
       [[S ''BACKGROUND'', At 0 0, At 0 0, Col SURFACE_CARD],
        [S ''BACKGROUND'', At 1 0, At 1 0, Col SURFACE_CARD],
        [S ''BOX'', At 0 0, At 0 0, X (N 2), Col GREEN],
        [S ''BOX'', At 1 0, At 1 0, X (N 2), Col CORAL],
        [S ''TOPPADDING'', At 0 0, At (-1) (-1), X (N 10)],
        [S ''BOTTOMPADDING'', At 0 0, At (-1) (-1), X (N 10)],
        [S ''LEFTPADDING'', At 0 0, At (-1) (-1), X (N 12)],
        [S ''RIGHTPADDING'', At 0 0, At (-1) (-1), X (N 12)],
        [S ''VALIGN'', At 0 0, At (-1) (-1), S ''MIDDLE''],
        [S ''ALIGN'', At 0 0, At (-1) (-1), S ''CENTER'']]"

definition rev_title_style :: pstyle where
  "rev_title_style = \<lparr> style_name = ''RevTitle'', parent = ''Normal'',
     fontSize = 14, textColor = WHITE, fontName = ''Helvetica-Bold'',
     alignment = TA_CENTER, leading = None, spaceBefore = None, spaceAfter = Some 10 \<rparr>"

definition streams :: "(string \<times> string) list" where
  "streams = [
    (''Tournament Entry Fees'', ''Bots pay MOLT to enter\<newline>Prize pool: 50/25/15/10 split''),
    (''Marketplace Cosmetics'', ''Skins, badges, effects\<newline>Creator-made virtual goods''),
    (''Premium Submolts'', ''Exclusive communities\<newline>Gated access via MOLT''),
    (''Spectator Tips'', ''Watch bot vs bot matches\<newline>Tip favorite competitors'')]"

definition stream_title_style :: pstyle where
  "stream_title_style = \<lparr> style_name = ''StreamTitle'', parent = ''Normal'',
     fontSize = 9, textColor = CYAN, fontName = ''Helvetica-Bold'',
     alignment = TA_CENTER, leading = Some 11, spaceBefore = None, spaceAfter = None \<rparr>"

definition stream_body_style :: pstyle where
  "stream_body_style = \<lparr> style_name = ''StreamBody'', parent = ''Normal'',
     fontSize = 8, textColor = WHITE_70, fontName = ''Helvetica'',
     alignment = TA_CENTER, leading = Some 10, spaceBefore = None, spaceAfter = None \<rparr>"

text \<open>\<^verbatim>\<open>for title, body in streams\<close>, with \<open>stream_cells\<close> as accumulator.\<close>

fun stream_cells_loop :: "(string \<times> string) list \<Rightarrow> cell list \<Rightarrow> cell list" where
  "stream_cells_loop [] stream_cells = stream_cells"
| "stream_cells_loop ((title, body) # rest) stream_cells =
     stream_cells_loop rest (stream_cells @ [Flowables [
       Paragraph (''<b>'' @ title @ ''</b>'') stream_title_style,
       Spacer (N 1) (N 3),
       Paragraph (replace_newline body) stream_body_style]])"

definition streams_table :: flowable where
  "streams_table =
     setStyle
       (Table [stream_cells_loop streams []]
          (Some (replicate 4 (Div (Sub PAGE_W (Mul (Dec 18 1) INCH)) (N 4))))
          None [])
       [[S ''BACKGROUND'', At 0 0, At (-1) (-1), Col SURFACE_CARD],
        [S ''BOX'', At 0 0, At 0 0, X (N 1), Col TEAL],
        [S ''BOX'', At 1 0, At 1 0, X (N 1), Col TEAL],
        [S ''BOX'', At 2 0, At 2 0, X (N 1), Col TEAL],
        [S ''BOX'', At 3 0, At 3 0, X (N 1), Col TEAL],
        [S ''TOPPADDING'', At 0 0, At (-1) (-1), X (N 8)],
        [S ''BOTTOMPADDING'', At 0 0, At (-1) (-1), X (N 8)],
        [S ''LEFTPADDING'', At 0 0, At (-1) (-1), X (N 6)],
        [S ''RIGHTPADDING'', At 0 0, At (-1) (-1), X (N 6)],
        [S ''VALIGN'', At 0 0, At (-1) (-1), S ''TOP''],
        [S ''ALIGN'', At 0 0, At (-1) (-1), S ''CENTER'']]"

definition page4 :: "flowable list \<Rightarrow> flowable list" where
  "page4 story =
     story @ [
       Paragraph ''Revenue Flow'' title_style,
       Paragraph ''How MOLT tokens flow through the Moltblox economy'' subtitle_style,
       player_table,
       Spacer (N 1) (N 4),
       payment_arrow_table,
       Spacer (N 1) (N 4),
       contract_table,
       Spacer (N 1) (N 4),
       split_label,
       Spacer (N 1) (N 4),
       destination_table,
       Spacer (N 1) (N 20),
       Paragraph ''Additional Revenue Streams'' rev_title_style,
       streams_table]"

subsection \<open>The script as a whole\<close>

text \<open>
  The callback \<^verbatim>\<open>page_bg(canvas, doc)\<close> is the sequence of canvas calls it makes.
\<close>

datatype canvas_op =
    SaveState
  | SetFillColor color
  | Rect num num num num nat nat
  | Circle num num num nat nat
  | RestoreState

definition page_bg :: "canvas_op list" where
  "page_bg = [
     SaveState,
     SetFillColor DARK_BG,
     Rect (N 0) (N 0) PAGE_W PAGE_H 1 0,
     SetFillColor (HexColor ''#0d3d3820''),
     Circle (Sub PAGE_W (N 100)) (Sub PAGE_H (N 80)) (N 200) 1 0,
     RestoreState]"

text \<open>
  \<^verbatim>\<open>SimpleDocTemplate(output_path, pagesize=landscape(A4), ...)\<close>; the page size is the
  pair the script also binds to \<^verbatim>\<open>PAGE_W, PAGE_H\<close>.
\<close>

record doc_template =
  filename :: string
  pagesize :: "num \<times> num"
  topMargin :: num
  bottomMargin :: num
  leftMargin :: num
  rightMargin :: num

definition SimpleDocTemplate :: "string \<Rightarrow> doc_template" where
  "SimpleDocTemplate path = \<lparr> filename = path, pagesize = (PAGE_W, PAGE_H),
     topMargin = Mul (Dec 6 1) INCH, bottomMargin = Mul (Dec 5 1) INCH,
     leftMargin = Mul (Dec 6 1) INCH, rightMargin = Mul (Dec 6 1) INCH \<rparr>"

text \<open>
  What the script does not define is a parameter: the interpreter's \<^verbatim>\<open>__file__\<close>,
  command line and environment, the functions of \<^verbatim>\<open>os.path\<close>, the library's
  \<^verbatim>\<open>build\<close>, and \<^verbatim>\<open>print\<close>. The calls that touch the outside world take the world
  \<open>'w\<close> (file system, standard output) and may raise. The build is handed the story as
  a mutable list: besides the new world it returns what it leaves in that list (the
  library removes the flowables it has placed).
\<close>

record 'w platform =
  dunder_file :: string
  argv :: "string list"
  environ :: "(string \<times> string) list"
  abspath :: "string \<Rightarrow> 'w \<Rightarrow> error + string"
  dirname :: "string \<Rightarrow> string"
  path_join :: "string \<Rightarrow> string \<Rightarrow> string"
  build :: "doc_template \<Rightarrow> flowable list \<Rightarrow> canvas_op list \<Rightarrow> canvas_op list \<Rightarrow> 'w
              \<Rightarrow> error + 'w \<times> flowable list"
  getsize :: "string \<Rightarrow> 'w \<Rightarrow> error + nat"
  py_print :: "string \<Rightarrow> 'w \<Rightarrow> error + 'w"

text \<open>The calls to the outside, logged in the order the script makes them.\<close>

datatype call =
    CallAbspath string
  | CallBuild doc_template "flowable list" "canvas_op list" "canvas_op list"
  | CallPrint string
  | CallGetsize string

record 'w state =
  story :: "flowable list"
  calls :: "call list"
  world :: 'w

text \<open>
  A statement maps the state to the next state, or raises; a raised error comes
  with the calls made so far. The script has no \<^verbatim>\<open>try\<close>: statements run in
  sequence and the first error ends the run.
\<close>

type_synonym 'w outcome = "(error \<times> call list) + 'w state"

fun run_steps :: "('w state \<Rightarrow> 'w outcome) list \<Rightarrow> 'w state \<Rightarrow> 'w outcome" where
  "run_steps [] s = Inr s"
| "run_steps (f # fs) s = (case f s of Inl x \<Rightarrow> Inl x | Inr s1 \<Rightarrow> run_steps fs s1)"

definition page1_step :: "'w state \<Rightarrow> 'w outcome" where
  "page1_step s =
     (case page1 (story s) of
        Inl e \<Rightarrow> Inl (e, calls s)
      | Inr story1 \<Rightarrow> Inr (s\<lparr>story := story1\<rparr>))"

definition page2_step :: "'w state \<Rightarrow> 'w outcome" where
  "page2_step s = Inr (s\<lparr>story := page2 (story s)\<rparr>)"

definition page3_step :: "'w state \<Rightarrow> 'w outcome" where
  "page3_step s = Inr (s\<lparr>story := page3 (story s)\<rparr>)"

definition page4_step :: "'w state \<Rightarrow> 'w outcome" where
  "page4_step s = Inr (s\<lparr>story := page4 (story s)\<rparr>)"

text \<open>
  \<^verbatim>\<open>doc.build(story, onFirstPage=page_bg, onLaterPages=page_bg)\<close>. The list \<open>story\<close> is
  passed by reference: after the call the variable holds what the build left in it.
\<close>

definition build_step :: "'w platform \<Rightarrow> doc_template \<Rightarrow> 'w state \<Rightarrow> 'w outcome" where
  "build_step P doc s =
     (let cs = calls s @ [CallBuild doc (story s) page_bg page_bg] in
      case build P doc (story s) page_bg page_bg (world s) of
        Inl e \<Rightarrow> Inl (e, cs)
      | Inr (w1, left) \<Rightarrow> Inr (s\<lparr>story := left, calls := cs, world := w1\<rparr>))"

text \<open>\<^verbatim>\<open>print(f'Generated: {output_path}')\<close>.\<close>

definition print_generated_step :: "'w platform \<Rightarrow> string \<Rightarrow> 'w state \<Rightarrow> 'w outcome" where
  "print_generated_step P output_path s =
     (let line = ''Generated: '' @ output_path;
          cs = calls s @ [CallPrint line] in
      case py_print P line (world s) of
        Inl e \<Rightarrow> Inl (e, cs)
      | Inr w1 \<Rightarrow> Inr (s\<lparr>calls := cs, world := w1\<rparr>))"

text \<open>The format \<^verbatim>\<open>{n:,}\<close>: decimal digits, grouped in threes by commas.\<close>

fun str_nat :: "nat \<Rightarrow> string" where
  "str_nat n =
     (if n < 10 then [''0123456789'' ! n]
      else str_nat (n div 10) @ [''0123456789'' ! (n mod 10)])"

fun commas_rev :: "string \<Rightarrow> string" where
  "commas_rev (a # b # c # d # rest) = a # b # c # CHR '','' # commas_rev (d # rest)"
| "commas_rev ds = ds"

definition format_commas :: "nat \<Rightarrow> string" where
  "format_commas n = rev (commas_rev (rev (str_nat n)))"

text \<open>\<^verbatim>\<open>print(f'Size: {os.path.getsize(output_path):,} bytes')\<close>.\<close>

definition print_size_step :: "'w platform \<Rightarrow> string \<Rightarrow> 'w state \<Rightarrow> 'w outcome" where
  "print_size_step P output_path s =
     (let cs = calls s @ [CallGetsize output_path] in
      case getsize P output_path (world s) of
        Inl e \<Rightarrow> Inl (e, cs)
      | Inr n \<Rightarrow>
          (let line = ''Size: '' @ format_commas n @ '' bytes'';
               cs1 = cs @ [CallPrint line] in
           case py_print P line (world s) of
             Inl e \<Rightarrow> Inl (e, cs1)
           | Inr w1 \<Rightarrow> Inr (s\<lparr>calls := cs1, world := w1\<rparr>)))"

text \<open>
  \<^verbatim>\<open>os.path.join(os.path.dirname(os.path.abspath(__file__)), 'moltblox-flowcharts.pdf')\<close>,
  where \<open>a\<close> is what \<^verbatim>\<open>abspath\<close> returned.
\<close>

definition output_path_of :: "'w platform \<Rightarrow> string \<Rightarrow> string" where
  "output_path_of P a = path_join P (dirname P a) ''moltblox-flowcharts.pdf''"

text \<open>
  The module body: the output path and the document template, the empty story, the
  four pages, the build and the two prints.
\<close>

definition script :: "'w platform \<Rightarrow> 'w \<Rightarrow> 'w outcome" where
  "script P w =
     (let cs = [CallAbspath (dunder_file P)] in
      case abspath P (dunder_file P) w of
        Inl e \<Rightarrow> Inl (e, cs)
      | Inr a \<Rightarrow>
          (let output_path = output_path_of P a;
               doc = SimpleDocTemplate output_path
           in run_steps [
                page1_step, page2_step, page3_step, page4_step,
                build_step P doc,
                print_generated_step P output_path,
                print_size_step P output_path]
              \<lparr> story = [], calls = cs, world = w \<rparr>))"

text \<open>
  The content assembly alone, lines 100 to 491: the story the four pages build from
  the empty list.
\<close>

definition assemble :: "error + flowable list" where
  "assemble =
     (case page1 [] of
        Inl e \<Rightarrow> Inl e
      | Inr story1 \<Rightarrow> Inr (page4 (page3 (page2 story1))))"

subsection \<open>Observations on a story and on a call log\<close>

text \<open>
  These functions are not part of the script; they read off a story, or a log of
  calls, what the properties below speak about.
\<close>

text \<open>
  Panels stacked with a separator between two consecutive panels, and none after the
  last.
\<close>

fun stack_with :: "'a list \<Rightarrow> 'a list \<Rightarrow> 'a list" where
  "stack_with sep [] = []"
| "stack_with sep [p] = [p]"
| "stack_with sep (p # q # ps) = p # sep @ stack_with sep (q # ps)"

text \<open>A down-arrow separator: a one-cell table holding the paragraph \<^verbatim>\<open>&#8595;\<close>.\<close>

fun is_down_arrow :: "flowable \<Rightarrow> bool" where
  "is_down_arrow (Table [[Single (Paragraph t st)]] cw rh cmds) = (t = ''&#8595;'')"
| "is_down_arrow f = False"

text \<open>The segments of a story between its page breaks.\<close>

fun split_at_breaks :: "flowable list \<Rightarrow> flowable list \<Rightarrow> flowable list list" where
  "split_at_breaks cur [] = [cur]"
| "split_at_breaks cur (PageBreak # fs) = cur # split_at_breaks [] fs"
| "split_at_breaks cur (f # fs) = split_at_breaks (cur @ [f]) fs"

text \<open>The texts of the top-level paragraphs set in \<open>title_style\<close>.\<close>

fun page_titles :: "flowable list \<Rightarrow> string list" where
  "page_titles [] = []"
| "page_titles (Paragraph t st # fs) =
     (if st = title_style then t # page_titles fs else page_titles fs)"
| "page_titles (f # fs) = page_titles fs"

text \<open>All strings of a flowable, in reading order, also those inside table cells.\<close>

fun texts :: "flowable \<Rightarrow> string list" and cell_texts :: "cell \<Rightarrow> string list" where
  "texts (Paragraph t st) = [t]"
| "texts (Spacer w h) = []"
| "texts (Table d cw rh cmds) = concat (map (\<lambda>row. concat (map cell_texts row)) d)"
| "texts PageBreak = []"
| "cell_texts (Flowables fs) = concat (map texts fs)"
| "cell_texts (Single f) = texts f"
| "cell_texts (Str s) = [s]"

text \<open>
  The number written directly before the first \<^verbatim>\<open>%\<close> of a string, if there is one:
  \<open>acc\<close> is the value of the digits read since the last character that is not a digit.
\<close>

definition is_digit :: "char \<Rightarrow> bool" where
  "is_digit c = (48 \<le> (of_char c :: nat) \<and> (of_char c :: nat) \<le> 57)"

fun scan_percent :: "nat option \<Rightarrow> string \<Rightarrow> nat option" where
  "scan_percent acc [] = None"
| "scan_percent acc (c # cs) =
     (if c = CHR ''%'' then acc
      else if is_digit c
      then scan_percent (Some (10 * (case acc of None \<Rightarrow> 0 | Some a \<Rightarrow> a) + (of_char c - 48))) cs
      else scan_percent None cs)"

definition percent_of :: "string \<Rightarrow> nat option" where
  "percent_of s = scan_percent None s"

text \<open>The percentages of a story, in reading order.\<close>

definition percents :: "flowable list \<Rightarrow> nat list" where
  "percents fs = concat (map (\<lambda>t. case percent_of t of None \<Rightarrow> [] | Some p \<Rightarrow> [p])
                          (concat (map texts fs)))"

text \<open>A flowable that is neither a paragraph nor a page break.\<close>

fun plain :: "flowable \<Rightarrow> bool" where
  "plain (Table d cw rh cmds) = True"
| "plain (Spacer w h) = True"
| "plain f = False"

text \<open>
  The bodies of the first three pages, below their title and subtitle: the stacked
  panels of each page.
\<close>

definition body1 :: "flowable \<Rightarrow> flowable \<Rightarrow> flowable \<Rightarrow> flowable list" where
  "body1 t0 t1 t2 =
     stack_with [Spacer (N 1) (N 2), down_arrow_table, Spacer (N 1) (N 2)] [t0, t1, t2]"

definition body2 :: "flowable list" where
  "body2 =
     stack_with [Spacer (N 1) (N 2), phase_arrow_table, Spacer (N 1) (N 2)]
       (map phase_table phases)"

definition body3 :: "flowable list" where
  "body3 = stack_with [layer_arrow_table] (map layer_table layers)"

text \<open>The build calls of a log, and the paths a log hands to the file system.\<close>

fun builds :: "call list \<Rightarrow> (doc_template \<times> flowable list \<times> canvas_op list \<times> canvas_op list) list" where
  "builds [] = []"
| "builds (CallBuild d st f l # cs) = (d, st, f, l) # builds cs"
| "builds (c # cs) = builds cs"


text \<open>What a run handed to the build: the story and the two callbacks of each build call.\<close>

definition handed_to_build ::
  "'w outcome \<Rightarrow> (flowable list \<times> canvas_op list \<times> canvas_op list) list" where
  "handed_to_build r = map snd (builds (case r of Inl (e, cs) \<Rightarrow> cs | Inr s \<Rightarrow> calls s))"

subsection \<open>A platform to run the script on\<close>

text \<open>
  A small platform on which the model runs. Its world is the list of files with their
  sizes, the lines printed, and what each build call received: the file name, the
  story and the two callbacks. Its build empties the list it is handed, as the library
  does. \<open>demo_platform fail\<close> raises in the calls named in \<open>fail\<close> (\<^verbatim>\<open>abspath\<close>,
  \<^verbatim>\<open>build\<close>, \<^verbatim>\<open>print\<close>, \<^verbatim>\<open>getsize\<close>), and from the second \<^verbatim>\<open>print\<close> on with
  \<^verbatim>\<open>print2\<close>.
\<close>

record demo_world =
  files :: "(string \<times> nat) list"
  printed :: "string list"
  received :: "(string \<times> flowable list \<times> canvas_op list \<times> canvas_op list) list"

definition demo_dirname :: "string \<Rightarrow> string" where
  "demo_dirname p = rev (drop 1 (dropWhile (\<lambda>c. c \<noteq> CHR ''/'') (rev p)))"

definition demo_platform :: "string list \<Rightarrow> demo_world platform" where
  "demo_platform fail = \<lparr>
     dunder_file = ''/repo/docs/generate_flowcharts_pdf.py'',
     argv = [''generate_flowcharts_pdf.py''],
     environ = [(''HOME'', ''/root'')],
     abspath = (\<lambda>p w. if ''abspath'' \<in> set fail then Inl (Raised ''FileNotFoundError'') else Inr p),
     dirname = demo_dirname,
     path_join = (\<lambda>a b. a @ ''/'' @ b),
     build = (\<lambda>d st f l w.
        if ''build'' \<in> set fail then Inl (Raised ''PermissionError'')
        else Inr (w\<lparr>files := (filename d, 48213) # files w,
                     received := received w @ [(filename d, st, f, l)]\<rparr>, [])),
     getsize = (\<lambda>p w.
        if ''getsize'' \<in> set fail then Inl (Raised ''OSError'')
        else (case map_of (files w) p of
                None \<Rightarrow> Inl (Raised ''FileNotFoundError'')
              | Some n \<Rightarrow> Inr n)),
     py_print = (\<lambda>line w.
        if ''print'' \<in> set fail \<or> (''print2'' \<in> set fail \<and> printed w \<noteq> [])
        then Inl (Raised ''BrokenPipeError'')
        else Inr (w\<lparr>printed := printed w @ [line]\<rparr>)) \<rparr>"

definition demo_world0 :: demo_world where
  "demo_world0 = \<lparr> files = [], printed = [], received = [] \<rparr>"

section \<open>Properties\<close>

subsection \<open>The journey grid (page 1)\<close>

lemma row_data_loop_total: "\<exists>rd. row_data_loop steps r cols acc = Inr rd"
  by (induction cols arbitrary: acc) (auto simp: py_getitem_def Let_def split: prod.splits)

lemma length_col_widths_loop: "length (col_widths_loop ixs acc) = length acc + length ixs"
  by (induction ixs arbitrary: acc) auto

lemma py_range_step_two_bound: "i \<in> set (py_range_step 0 n 2) \<Longrightarrow> i < n"
  by (auto simp: py_range_step_def)

lemma box_style_loop_total:
  "\<forall>i \<in> set ixs. i < length full_row \<Longrightarrow> \<exists>cmds. box_style_loop full_row ixs acc = Inr cmds"
  by (induction ixs arbitrary: acc) (auto simp: py_getitem_def)

lemma journey_row_table_shape:
  "\<exists>full_row cw rh cmds. journey_row_table steps r = Inr (Table [full_row] (Some cw) rh cmds)
      \<and> length cw = length full_row"
proof -
  obtain rd where rd: "row_data_loop steps r [0 ..< 3] [] = Inr rd"
    using row_data_loop_total by blast
  let ?fr = "full_row_loop (length rd) (enumerate 0 rd) []"
  obtain cmds where "box_style_loop ?fr (py_range_step 0 (length ?fr) 2) [
                 [S ''VALIGN'', At 0 0, At (-1) (-1), S ''MIDDLE''],
                 [S ''ALIGN'', At 0 0, At (-1) (-1), S ''CENTER''],
                 [S ''TOPPADDING'', At 0 0, At (-1) (-1), X (N 8)],
                 [S ''BOTTOMPADDING'', At 0 0, At (-1) (-1), X (N 8)],
                 [S ''LEFTPADDING'', At 0 0, At (-1) (-1), X (N 6)],
                 [S ''RIGHTPADDING'', At 0 0, At (-1) (-1), X (N 6)]] = Inr cmds"
    using box_style_loop_total py_range_step_two_bound by blast
  then show ?thesis
    using rd by (simp add: journey_row_table_def Let_def length_col_widths_loop)
qed

lemma journey_row_table_full:
  assumes "row_idx * 3 + 2 < length steps"
  shows "\<exists>b0 b1 b2 cw rh cmds. b0 \<noteq> [] \<and> b1 \<noteq> [] \<and> b2 \<noteq> [] \<and>
     row_data_loop steps row_idx [0 ..< 3] [] = Inr [Flowables b0, Flowables b1, Flowables b2] \<and>
     journey_row_table steps row_idx =
       Inr (Table [[Flowables b0, Single (Paragraph ''&#8594;'' arrow_style), Flowables b1,
                    Single (Paragraph ''&#8594;'' arrow_style), Flowables b2]] (Some cw) rh cmds)
     \<and> length cw = 5"
proof -
  have rd: "\<exists>b0 b1 b2. b0 \<noteq> [] \<and> b1 \<noteq> [] \<and> b2 \<noteq> [] \<and>
     row_data_loop steps row_idx [0 ..< 3] [] = Inr [Flowables b0, Flowables b1, Flowables b2]"
    using assms by (simp add: upt_rec py_getitem_def Let_def split: prod.splits)
  then obtain b0 b1 b2 where b: "b0 \<noteq> []" "b1 \<noteq> []" "b2 \<noteq> []"
    and r: "row_data_loop steps row_idx [0 ..< 3] [] = Inr [Flowables b0, Flowables b1, Flowables b2]"
    by blast
  show ?thesis
    using b r
    by (simp add: journey_row_table_def Let_def py_range_step_def py_getitem_def upt_rec)
qed

text \<open>
  Claim C7. In the grid loop of page 1 the access \<^verbatim>\<open>journey_steps[step_idx]\<close> never
  raises, whatever the list of steps, the row and the columns: it is guarded by
  \<^verbatim>\<open>step_idx < len(journey_steps)\<close>. The column widths of a row table always have the
  length of its row. The list \<open>journey_steps\<close> has 9 entries; with at least 9 steps and
  a row index below 3, the empty-cell branch is not taken (no cell is the empty
  string), the row has exactly 5 entries, boxes at the even indices and arrow
  paragraphs at the odd ones.
\<close>

theorem journey_grid_in_bounds:
  "(\<exists>row_data. row_data_loop steps row_idx cols acc = Inr row_data) \<and>
   (\<exists>full_row col_widths rh cmds.
      journey_row_table steps row_idx = Inr (Table [full_row] (Some col_widths) rh cmds) \<and>
      length col_widths = length full_row) \<and>
   length journey_steps = 9 \<and>
   (9 \<le> length steps \<and> row_idx < 3 \<longrightarrow>
      (\<exists>row_data full_row col_widths rh cmds.
         row_data_loop steps row_idx [0 ..< 3] [] = Inr row_data \<and>
         Str '''' \<notin> set row_data \<and>
         journey_row_table steps row_idx = Inr (Table [full_row] (Some col_widths) rh cmds) \<and>
         length full_row = 5 \<and> length col_widths = length full_row \<and>
         (\<forall>i < 5. if i mod 2 = 0
                  then (\<exists>fs. fs \<noteq> [] \<and> full_row ! i = Flowables fs)
                  else full_row ! i = Single (Paragraph ''&#8594;'' arrow_style))))"
proof (intro conjI impI)
  show "\<exists>row_data. row_data_loop steps row_idx cols acc = Inr row_data"
    by (rule row_data_loop_total)
  show "\<exists>full_row col_widths rh cmds.
      journey_row_table steps row_idx = Inr (Table [full_row] (Some col_widths) rh cmds) \<and>
      length col_widths = length full_row"
    by (rule journey_row_table_shape)
  show "length journey_steps = 9"
    by (simp add: journey_steps_def)
next
  assume a: "9 \<le> length steps \<and> row_idx < 3"
  then have "row_idx * 3 + 2 < length steps" by arith
  from journey_row_table_full [OF this]
  obtain b0 b1 b2 cw rh cmds where b: "b0 \<noteq> []" "b1 \<noteq> []" "b2 \<noteq> []"
    and rd: "row_data_loop steps row_idx [0 ..< 3] [] = Inr [Flowables b0, Flowables b1, Flowables b2]"
    and t: "journey_row_table steps row_idx =
       Inr (Table [[Flowables b0, Single (Paragraph ''&#8594;'' arrow_style), Flowables b1,
                    Single (Paragraph ''&#8594;'' arrow_style), Flowables b2]] (Some cw) rh cmds)"
    and cw: "length cw = 5"
    by blast
  let ?fr = "[Flowables b0, Single (Paragraph ''&#8594;'' arrow_style), Flowables b1,
              Single (Paragraph ''&#8594;'' arrow_style), Flowables b2]"
  have idx: "\<forall>i < 5. if i mod 2 = 0
                  then (\<exists>fs. fs \<noteq> [] \<and> ?fr ! i = Flowables fs)
                  else ?fr ! i = Single (Paragraph ''&#8594;'' arrow_style)"
  proof (intro allI impI)
    fix i :: nat assume "i < 5"
    then consider "i = 0" | "i = 1" | "i = 2" | "i = 3" | "i = 4" by arith
    then show "if i mod 2 = 0
                  then (\<exists>fs. fs \<noteq> [] \<and> ?fr ! i = Flowables fs)
                  else ?fr ! i = Single (Paragraph ''&#8594;'' arrow_style)"
      using b by cases simp_all
  qed
  show "\<exists>row_data full_row col_widths rh cmds.
         row_data_loop steps row_idx [0 ..< 3] [] = Inr row_data \<and>
         Str '''' \<notin> set row_data \<and>
         journey_row_table steps row_idx = Inr (Table [full_row] (Some col_widths) rh cmds) \<and>
         length full_row = 5 \<and> length col_widths = length full_row \<and>
         (\<forall>i < 5. if i mod 2 = 0
                  then (\<exists>fs. fs \<noteq> [] \<and> full_row ! i = Flowables fs)
                  else full_row ! i = Single (Paragraph ''&#8594;'' arrow_style))"
    apply (rule exI [of _ "[Flowables b0, Flowables b1, Flowables b2]"])
    apply (rule exI [of _ ?fr])
    apply (rule exI [of _ cw])
    apply (rule exI [of _ rh])
    apply (rule exI [of _ cmds])
    using rd t cw idx by simp
qed

theorem journey_grid_in_bounds_witness:
  "(9::nat) \<le> length journey_steps \<and> (1::nat) < 3 \<and>
   (\<exists>row_data full_row col_widths rh cmds.
         row_data_loop journey_steps 1 [0 ..< 3] [] = Inr row_data \<and>
         Str '''' \<notin> set row_data \<and>
         journey_row_table journey_steps 1 = Inr (Table [full_row] (Some col_widths) rh cmds) \<and>
         length full_row = 5 \<and> length col_widths = 5)"
proof -
  have h: "9 \<le> length journey_steps \<and> (1::nat) < 3"
    by (simp add: journey_steps_def)
  from journey_grid_in_bounds [of journey_steps 1 "[]" "[]"] h
  obtain row_data full_row col_widths rh cmds where
    "row_data_loop journey_steps 1 [0 ..< 3] [] = Inr row_data"
    "Str '''' \<notin> set row_data"
    "journey_row_table journey_steps 1 = Inr (Table [full_row] (Some col_widths) rh cmds)"
    "length full_row = 5" "length col_widths = length full_row"
    by blast
  then show ?thesis using h by auto
qed

subsection \<open>Separators between stacked panels\<close>

lemma stack_with_Cons:
  "xs \<noteq> [] \<Longrightarrow> stack_with sep (x # xs) = x # sep @ stack_with sep xs"
  by (cases xs) simp_all

lemma phases_loop_gen:
  "phases_loop (k + length xs) (enumerate k xs) st0 =
     st0 @ stack_with [Spacer (N 1) (N 2), phase_arrow_table, Spacer (N 1) (N 2)] (map phase_table xs)"
proof (induction xs arbitrary: k st0)
  case Nil
  then show ?case by simp
next
  case (Cons x xs)
  let ?sep = "[Spacer (N 1) (N 2), phase_arrow_table, Spacer (N 1) (N 2)]"
  show ?case
  proof (cases "xs = []")
    case True
    then show ?thesis by simp
  next
    case False
    then have lt: "int k < int (k + length (x # xs)) - 1"
      by (cases xs) simp_all
    have "phases_loop (k + length (x # xs)) (enumerate k (x # xs)) st0 =
          phases_loop (Suc k + length xs) (enumerate (Suc k) xs) ((st0 @ [phase_table x]) @ ?sep)"
      using lt by (simp add: Let_def)
    also have "\<dots> = ((st0 @ [phase_table x]) @ ?sep) @ stack_with ?sep (map phase_table xs)"
      by (rule Cons.IH)
    also have "\<dots> = st0 @ stack_with ?sep (map phase_table (x # xs))"
      using False by (simp add: stack_with_Cons)
    finally show ?thesis .
  qed
qed

lemma layers_loop_gen:
  "layers_loop (k + length xs) (enumerate k xs) st0 =
     st0 @ stack_with [layer_arrow_table] (map layer_table xs)"
proof (induction xs arbitrary: k st0)
  case Nil
  then show ?case by simp
next
  case (Cons x xs)
  show ?case
  proof (cases "xs = []")
    case True
    then show ?thesis by simp
  next
    case False
    then have lt: "int k < int (k + length (x # xs)) - 1"
      by (cases xs) simp_all
    have "layers_loop (k + length (x # xs)) (enumerate k (x # xs)) st0 =
          layers_loop (Suc k + length xs) (enumerate (Suc k) xs)
            ((st0 @ [layer_table x]) @ [layer_arrow_table])"
      using lt by (simp add: Let_def)
    also have "\<dots> = ((st0 @ [layer_table x]) @ [layer_arrow_table])
                       @ stack_with [layer_arrow_table] (map layer_table xs)"
      by (rule Cons.IH)
    also have "\<dots> = st0 @ stack_with [layer_arrow_table] (map layer_table (x # xs))"
      using False by (simp add: stack_with_Cons)
    finally show ?thesis .
  qed
qed

lemma not_arrow_phase: "\<not> is_down_arrow (phase_table ph)"
  by (cases ph) (simp add: phase_table_def Let_def)

lemma not_arrow_layer: "\<not> is_down_arrow (layer_table ly)"
  by (cases ly) (simp add: layer_table_def Let_def)

lemma count_stack_with:
  "\<forall>p \<in> set ps. \<not> Q p \<Longrightarrow>
     length (filter Q (stack_with sep ps)) = length (filter Q sep) * (length ps - 1)"
  by (induction sep ps rule: stack_with.induct) auto

lemma arrows_phase_sep:
  "filter is_down_arrow [Spacer (N 1) (N 2), phase_arrow_table, Spacer (N 1) (N 2)] = [phase_arrow_table]"
  by (simp add: phase_arrow_table_def)

lemma arrows_layer_sep: "filter is_down_arrow [layer_arrow_table] = [layer_arrow_table]"
  by (simp add: layer_arrow_table_def)

lemma arrows_journey_sep:
  "filter is_down_arrow [Spacer (N 1) (N 2), down_arrow_table, Spacer (N 1) (N 2)] = [down_arrow_table]"
  by (simp add: down_arrow_table_def)

lemma journey_rows_eq:
  "\<exists>t0 t1 t2. journey_row_table journey_steps 0 = Inr t0 \<and>
     journey_row_table journey_steps 1 = Inr t1 \<and>
     journey_row_table journey_steps 2 = Inr t2 \<and>
     \<not> is_down_arrow t0 \<and> \<not> is_down_arrow t1 \<and> \<not> is_down_arrow t2 \<and>
     (\<forall>st0. journey_rows_loop journey_steps [0 ..< 3] st0 =
        Inr (st0 @ stack_with [Spacer (N 1) (N 2), down_arrow_table, Spacer (N 1) (N 2)] [t0, t1, t2]))"
proof -
  have len: "0 * 3 + 2 < length journey_steps" "1 * 3 + 2 < length journey_steps"
    "2 * 3 + 2 < length journey_steps"
    by (simp_all add: journey_steps_def)
  from journey_row_table_full [OF len(1)] obtain t0 where
    t0: "journey_row_table journey_steps 0 = Inr t0" "\<not> is_down_arrow t0" by auto
  from journey_row_table_full [OF len(2)] obtain t1 where
    t1: "journey_row_table journey_steps 1 = Inr t1" "\<not> is_down_arrow t1" by auto
  from journey_row_table_full [OF len(3)] obtain t2 where
    t2: "journey_row_table journey_steps 2 = Inr t2" "\<not> is_down_arrow t2" by auto
  have "journey_rows_loop journey_steps [0 ..< 3] st0 =
        Inr (st0 @ stack_with [Spacer (N 1) (N 2), down_arrow_table, Spacer (N 1) (N 2)] [t0, t1, t2])"
    for st0
  proof -
    have r: "[0 ..< 3] = [0, 1, 2::nat]" by (simp add: upt_rec)
    show ?thesis unfolding r using t0(1) t1(1) t2(1) by (simp add: Let_def)
  qed
  then show ?thesis using t0 t1 t2 by blast
qed

text \<open>
  Claim C8. Each of the three loops that stack panels appends a down-arrow separator
  between two consecutive panels and none after the last one: its output is the
  story so far followed by the panels stacked with the separator. This holds for the
  roadmap loop and the architecture loop on every list of panels, and for the three
  rows of the journey grid. The number of down-arrow separators is the number of
  panels minus one: 4 for the 5 phases of page 2, 5 for the 6 layers of page 3, and 2
  for the 3 grid rows of page 1.
\<close>

theorem separators_between_panels:
  "phases_loop (length phs) (enumerate 0 phs) st0 =
     st0 @ stack_with [Spacer (N 1) (N 2), phase_arrow_table, Spacer (N 1) (N 2)]
             (map phase_table phs) \<and>
   length (filter is_down_arrow
     (stack_with [Spacer (N 1) (N 2), phase_arrow_table, Spacer (N 1) (N 2)]
        (map phase_table phs))) = length phs - 1 \<and>
   layers_loop (length lys) (enumerate 0 lys) st0 =
     st0 @ stack_with [layer_arrow_table] (map layer_table lys) \<and>
   length (filter is_down_arrow (stack_with [layer_arrow_table] (map layer_table lys)))
     = length lys - 1 \<and>
   (\<exists>t0 t1 t2.
      journey_row_table journey_steps 0 = Inr t0 \<and>
      journey_row_table journey_steps 1 = Inr t1 \<and>
      journey_row_table journey_steps 2 = Inr t2 \<and>
      journey_rows_loop journey_steps [0 ..< 3] st0 =
        Inr (st0 @ stack_with [Spacer (N 1) (N 2), down_arrow_table, Spacer (N 1) (N 2)]
                     [t0, t1, t2]) \<and>
      length (filter is_down_arrow
        (stack_with [Spacer (N 1) (N 2), down_arrow_table, Spacer (N 1) (N 2)] [t0, t1, t2])) = 2) \<and>
   length phases = 5 \<and> length layers = 6 \<and>
   length (filter is_down_arrow (page2 [])) = 4 \<and>
   length (filter is_down_arrow (page3 [])) = 5 \<and>
   (\<exists>s. page1 [] = Inr s \<and> length (filter is_down_arrow s) = 2)"
proof -
  let ?psep = "[Spacer (N 1) (N 2), phase_arrow_table, Spacer (N 1) (N 2)]"
  let ?jsep = "[Spacer (N 1) (N 2), down_arrow_table, Spacer (N 1) (N 2)]"
  have p1: "phases_loop (length xs) (enumerate 0 xs) st = st @ stack_with ?psep (map phase_table xs)"
    for xs st
    using phases_loop_gen [of 0 xs st] by simp
  have p2: "length (filter is_down_arrow (stack_with ?psep (map phase_table xs))) = length xs - 1"
    for xs
    using count_stack_with [of "map phase_table xs" is_down_arrow ?psep]
    by (simp add: not_arrow_phase arrows_phase_sep del: filter.simps)
  have l1: "layers_loop (length xs) (enumerate 0 xs) st = st @ stack_with [layer_arrow_table] (map layer_table xs)"
    for xs st
    using layers_loop_gen [of 0 xs st] by simp
  have l2: "length (filter is_down_arrow (stack_with [layer_arrow_table] (map layer_table xs))) = length xs - 1"
    for xs
    using count_stack_with [of "map layer_table xs" is_down_arrow "[layer_arrow_table]"]
    by (simp add: not_arrow_layer arrows_layer_sep del: filter.simps)
  obtain t0 t1 t2 where t: "journey_row_table journey_steps 0 = Inr t0"
     "journey_row_table journey_steps 1 = Inr t1"
     "journey_row_table journey_steps 2 = Inr t2"
     and na: "\<not> is_down_arrow t0" "\<not> is_down_arrow t1" "\<not> is_down_arrow t2"
     and j: "\<And>st0. journey_rows_loop journey_steps [0 ..< 3] st0 = Inr (st0 @ stack_with ?jsep [t0, t1, t2])"
    using journey_rows_eq by blast
  have jc: "length (filter is_down_arrow (stack_with ?jsep [t0, t1, t2])) = 2"
    using na by (simp add: down_arrow_table_def)
  have n5: "length phases = 5" by (simp add: phases_def)
  have n6: "length layers = 6" by (simp add: layers_def)
  have c2: "length (filter is_down_arrow (page2 [])) = 4"
    unfolding page2_def p1 using p2 [of phases] n5 by simp
  have c3: "length (filter is_down_arrow (page3 [])) = 5"
    unfolding page3_def l1 using l2 [of layers] n6 by simp
  have c1: "\<exists>s. page1 [] = Inr s \<and> length (filter is_down_arrow s) = 2"
    using na by (simp add: page1_def j down_arrow_table_def)
  show ?thesis
    using p1 p2 l1 l2 t j jc n5 n6 c2 c3 c1 by blast
qed

subsection \<open>The pages of the story\<close>

lemma plain_split:
  "\<forall>x \<in> set xs. plain x \<Longrightarrow>
     split_at_breaks cur (xs @ rest) = split_at_breaks (cur @ xs) rest"
proof (induction xs arbitrary: cur)
  case Nil
  then show ?case by simp
next
  case (Cons x xs)
  then have "plain x" by simp
  then have "split_at_breaks cur (x # xs @ rest) = split_at_breaks (cur @ [x]) (xs @ rest)"
    by (cases x) simp_all
  then show ?case using Cons by simp
qed

lemma plain_titles: "\<forall>x \<in> set xs. plain x \<Longrightarrow> page_titles (xs @ rest) = page_titles rest"
proof (induction xs)
  case Nil
  then show ?case by simp
next
  case (Cons x xs)
  then have "plain x" by simp
  then have "page_titles (x # xs @ rest) = page_titles (xs @ rest)"
    by (cases x) simp_all
  then show ?case using Cons by simp
qed

lemma plain_no_break: "\<forall>x \<in> set xs. plain x \<Longrightarrow> filter (\<lambda>f. f = PageBreak) xs = []"
  by (induction xs) auto

lemma plain_stack_with:
  "\<forall>x \<in> set sep. plain x \<Longrightarrow> \<forall>p \<in> set ps. plain p \<Longrightarrow> \<forall>x \<in> set (stack_with sep ps). plain x"
  by (induction sep ps rule: stack_with.induct) auto

lemma plain_tables:
  "plain (phase_table ph)" "plain (layer_table ly)" "plain down_arrow_table"
  "plain phase_arrow_table" "plain layer_arrow_table" "plain player_table"
  "plain payment_arrow_table" "plain contract_table" "plain split_label"
  "plain destination_table" "plain streams_table"
  by (simp_all add: phase_table_def layer_table_def down_arrow_table_def phase_arrow_table_def
        layer_arrow_table_def player_table_def payment_arrow_table_def contract_table_def
        split_label_def destination_table_def streams_table_def Let_def split: prod.splits)

lemma assemble_shape:
  "\<exists>t0 t1 t2.
     journey_row_table journey_steps 0 = Inr t0 \<and>
     journey_row_table journey_steps 1 = Inr t1 \<and>
     journey_row_table journey_steps 2 = Inr t2 \<and>
     assemble = Inr (
       [Paragraph ''User Journey Flow'' title_style,
        Paragraph ''How bots and players interact with the Moltblox platform'' subtitle_style]
       @ body1 t0 t1 t2 @ [PageBreak]
       @ [Paragraph ''Implementation Roadmap'' title_style,
          Paragraph ''5-phase path from development to production launch'' subtitle_style]
       @ body2 @ [PageBreak]
       @ [Paragraph ''System Architecture'' title_style,
          Paragraph ''Layered architecture from clients to blockchain'' subtitle_style]
       @ body3 @ [PageBreak]
       @ page4 [])"
proof -
  obtain t0 t1 t2 where t: "journey_row_table journey_steps 0 = Inr t0"
     "journey_row_table journey_steps 1 = Inr t1"
     "journey_row_table journey_steps 2 = Inr t2"
     and j: "\<And>st0. journey_rows_loop journey_steps [0 ..< 3] st0 =
        Inr (st0 @ stack_with [Spacer (N 1) (N 2), down_arrow_table, Spacer (N 1) (N 2)] [t0, t1, t2])"
    using journey_rows_eq by blast
  have p4: "page4 st = st @ page4 []" for st
    by (simp add: page4_def)
  have p2: "page2 st = st @ [Paragraph ''Implementation Roadmap'' title_style,
          Paragraph ''5-phase path from development to production launch'' subtitle_style]
       @ body2 @ [PageBreak]" for st
    unfolding page2_def body2_def using phases_loop_gen [of 0 phases] by simp
  have p3: "page3 st = st @ [Paragraph ''System Architecture'' title_style,
          Paragraph ''Layered architecture from clients to blockchain'' subtitle_style]
       @ body3 @ [PageBreak]" for st
    unfolding page3_def body3_def using layers_loop_gen [of 0 layers] by simp
  have p1: "page1 [] = Inr ([Paragraph ''User Journey Flow'' title_style,
        Paragraph ''How bots and players interact with the Moltblox platform'' subtitle_style]
       @ body1 t0 t1 t2 @ [PageBreak])"
    unfolding page1_def body1_def j by simp
  have "assemble = Inr (
       [Paragraph ''User Journey Flow'' title_style,
        Paragraph ''How bots and players interact with the Moltblox platform'' subtitle_style]
       @ body1 t0 t1 t2 @ [PageBreak]
       @ [Paragraph ''Implementation Roadmap'' title_style,
          Paragraph ''5-phase path from development to production launch'' subtitle_style]
       @ body2 @ [PageBreak]
       @ [Paragraph ''System Architecture'' title_style,
          Paragraph ''Layered architecture from clients to blockchain'' subtitle_style]
       @ body3 @ [PageBreak]
       @ page4 [])"
    unfolding assemble_def p1 by (subst p4) (simp add: p3 p2)
  then show ?thesis using t by blast
qed


lemma page4_observed:
  "filter (\<lambda>f. f = PageBreak) (page4 []) = []"
  "split_at_breaks cur (page4 []) = [cur @ page4 []]"
  "page_titles (page4 []) = [''Revenue Flow'']"
  "take 1 (page4 []) = [Paragraph ''Revenue Flow'' title_style]"
proof -
  have ne: "f \<noteq> PageBreak" if "plain f" for f
    using that by (cases f) simp_all
  have sp: "split_at_breaks c (f # fs) = split_at_breaks (c @ [f]) fs" if "plain f" for f c fs
    using that by (cases f) simp_all
  have ti: "page_titles (f # fs) = page_titles fs" if "plain f" for f fs
    using that by (cases f) simp_all
  show "filter (\<lambda>f. f = PageBreak) (page4 []) = []"
    by (simp add: page4_def ne plain_tables)
  show "split_at_breaks cur (page4 []) = [cur @ page4 []]"
    by (simp add: page4_def sp plain_tables)
  show "page_titles (page4 []) = [''Revenue Flow'']"
    by (simp add: page4_def ti plain_tables title_style_def subtitle_style_def rev_title_style_def)
  show "take 1 (page4 []) = [Paragraph ''Revenue Flow'' title_style]"
    by (simp add: page4_def)
qed

lemma plain_bodies:
  "plain t0 \<Longrightarrow> plain t1 \<Longrightarrow> plain t2 \<Longrightarrow> \<forall>x \<in> set (body1 t0 t1 t2). plain x"
  "\<forall>x \<in> set body2. plain x"
  "\<forall>x \<in> set body3. plain x"
  unfolding body1_def body2_def body3_def
  by (rule plain_stack_with; simp add: plain_tables)+

text \<open>
  Claim C2. The assembled story has exactly three page breaks; the four segments they
  separate begin with the title paragraphs \<^verbatim>\<open>User Journey Flow\<close>,
  \<^verbatim>\<open>Implementation Roadmap\<close>, \<^verbatim>\<open>System Architecture\<close> and \<^verbatim>\<open>Revenue Flow\<close>, in this
  order, and these are the only paragraphs of the story set in the title style.
\<close>

theorem story_has_four_pages:
  "\<exists>s. assemble = Inr s \<and>
       length (filter (\<lambda>f. f = PageBreak) s) = 3 \<and>
       map (take 1) (split_at_breaks [] s) = [
         [Paragraph ''User Journey Flow'' title_style],
         [Paragraph ''Implementation Roadmap'' title_style],
         [Paragraph ''System Architecture'' title_style],
         [Paragraph ''Revenue Flow'' title_style]] \<and>
       page_titles s = [''User Journey Flow'', ''Implementation Roadmap'',
                        ''System Architecture'', ''Revenue Flow'']"
proof -
  obtain t0 t1 t2 where t: "journey_row_table journey_steps 0 = Inr t0"
     "journey_row_table journey_steps 1 = Inr t1"
     "journey_row_table journey_steps 2 = Inr t2"
    and s: "assemble = Inr (
       [Paragraph ''User Journey Flow'' title_style,
        Paragraph ''How bots and players interact with the Moltblox platform'' subtitle_style]
       @ body1 t0 t1 t2 @ [PageBreak]
       @ [Paragraph ''Implementation Roadmap'' title_style,
          Paragraph ''5-phase path from development to production launch'' subtitle_style]
       @ body2 @ [PageBreak]
       @ [Paragraph ''System Architecture'' title_style,
          Paragraph ''Layered architecture from clients to blockchain'' subtitle_style]
       @ body3 @ [PageBreak]
       @ page4 [])" (is "_ = Inr ?s")
    using assemble_shape by blast
  have pt: "plain t0" "plain t1" "plain t2"
    using t journey_row_table_shape [of journey_steps 0] journey_row_table_shape [of journey_steps 1]
      journey_row_table_shape [of journey_steps 2] by auto
  note b1 = plain_bodies(1) [OF pt]
  note b2 = plain_bodies(2)
  note b3 = plain_bodies(3)
  have st: "subtitle_style \<noteq> title_style"
    by (simp add: subtitle_style_def title_style_def)
  have n: "length (filter (\<lambda>f. f = PageBreak) ?s) = 3"
    by (simp add: plain_no_break [OF b1] plain_no_break [OF b2] plain_no_break [OF b3]
          page4_observed(1))
  have sp: "map (take 1) (split_at_breaks [] ?s) = [
         [Paragraph ''User Journey Flow'' title_style],
         [Paragraph ''Implementation Roadmap'' title_style],
         [Paragraph ''System Architecture'' title_style],
         [Paragraph ''Revenue Flow'' title_style]]"
    using page4_observed(4)
    by (simp add: plain_split [OF b1] plain_split [OF b2] plain_split [OF b3] page4_observed(2))
  have ti: "page_titles ?s = [''User Journey Flow'', ''Implementation Roadmap'',
                        ''System Architecture'', ''Revenue Flow'']"
    by (simp add: st plain_titles [OF b1] plain_titles [OF b2] plain_titles [OF b3] page4_observed(3))
  show ?thesis
    by (rule exI [of _ ?s]) (intro conjI s n sp ti)
qed

subsection \<open>The revenue split\<close>

lemma percents_append: "percents (xs @ ys) = percents xs @ percents ys"
  by (simp add: percents_def)

lemma percents_Cons: "percents (x # xs) = percents [x] @ percents xs"
  by (simp add: percents_def)

lemma pc_phases: "percents (map phase_table phases) = []"
  by (simp add: percents_def phases_def phase_table_def percent_of_def is_digit_def Let_def
        TEAL_def BLUE_def PURPLE_def AMBER_def GREEN_def)

lemma pc_layers: "percents (map layer_table layers) = []"
  by (simp add: percents_def layers_def layer_table_def percent_of_def is_digit_def Let_def
        TEAL_def BLUE_def PURPLE_def AMBER_def GREEN_def)

lemma pc_page4: "percents (page4 []) = [85, 15, 85, 15]"
  by (simp add: percents_def page4_def player_table_def payment_arrow_table_def contract_table_def
    split_label_def destination_table_def streams_table_def streams_def player_cell_def
    contract_cell_def creator_cell_def platform_cell_def percent_of_def is_digit_def)

lemma pc_rows:
  "\<exists>t0 t1 t2. journey_row_table journey_steps 0 = Inr t0 \<and>
     journey_row_table journey_steps 1 = Inr t1 \<and>
     journey_row_table journey_steps 2 = Inr t2 \<and>
     percents [t0] = [] \<and> percents [t1] = [] \<and> percents [t2] = [85]"
  by (simp add: journey_row_table_def journey_steps_def py_getitem_def py_range_step_def
        enumerate_eq_zip upt_rec percents_def percent_of_def is_digit_def Let_def)


lemma percents_stack_with: "percents sep = [] \<Longrightarrow> percents (stack_with sep ps) = percents ps"
proof (induction sep ps rule: stack_with.induct)
  case (3 sep p q ps)
  have "percents (stack_with sep (p # q # ps)) =
          percents [p] @ percents sep @ percents (stack_with sep (q # ps))"
    by (simp add: percents_def)
  also have "\<dots> = percents [p] @ percents (q # ps)"
    using 3 by simp
  also have "\<dots> = percents (p # q # ps)"
    by (simp add: percents_def)
  finally show ?case .
qed simp_all

lemma pc_seps:
  "percents [Spacer (N 1) (N 2), down_arrow_table, Spacer (N 1) (N 2)] = []"
  "percents [Spacer (N 1) (N 2), phase_arrow_table, Spacer (N 1) (N 2)] = []"
  "percents [layer_arrow_table] = []"
  by (simp_all add: percents_def down_arrow_table_def phase_arrow_table_def layer_arrow_table_def
        percent_of_def is_digit_def)

lemma pc_headers:
  "percents [Paragraph ''User Journey Flow'' title_style,
        Paragraph ''How bots and players interact with the Moltblox platform'' subtitle_style] = []"
  "percents [Paragraph ''Implementation Roadmap'' title_style,
          Paragraph ''5-phase path from development to production launch'' subtitle_style] = []"
  "percents [Paragraph ''System Architecture'' title_style,
          Paragraph ''Layered architecture from clients to blockchain'' subtitle_style] = []"
  "percents [PageBreak] = []"
  by (simp_all add: percents_def percent_of_def is_digit_def)

text \<open>
  Claim C9. The revenue-split figures agree across the pages. The creator share is
  85 percent in journey step 7 (page 1), in the left split label and in the Game
  Creator box (page 4); the platform fee is 15 percent in the right split label and
  in the Platform Treasury box (page 4); the two sum to 100. Read page by page, the
  percentages of the assembled story are 85 on page 1, none on pages 2 and 3, and 85,
  15, 85, 15 on page 4.
\<close>

theorem revenue_split_consistent:
  "\<exists>creator fee.
     creator = 85 \<and> fee = 15 \<and> creator + fee = 100 \<and>
     fst (journey_steps ! 6) = ''7. Publish & Monetize'' \<and>
     percent_of (snd (journey_steps ! 6)) = Some creator \<and>
     map percent_of (texts split_label) = [Some creator, Some fee] \<and>
     map percent_of (concat (map texts creator_cell)) = [None, Some creator] \<and>
     map percent_of (concat (map texts platform_cell)) = [None, Some fee] \<and>
     (\<exists>s. assemble = Inr s \<and>
          map percents (split_at_breaks [] s) = [[creator], [], [], [creator, fee, creator, fee]])"
proof -
  have j: "fst (journey_steps ! 6) = ''7. Publish & Monetize''"
    "percent_of (snd (journey_steps ! 6)) = Some 85"
    by (simp_all add: journey_steps_def percent_of_def is_digit_def)
  have sl: "map percent_of (texts split_label) = [Some 85, Some 15]"
    by (simp add: split_label_def percent_of_def is_digit_def)
  have cc: "map percent_of (concat (map texts creator_cell)) = [None, Some 85]"
    by (simp add: creator_cell_def percent_of_def is_digit_def)
  have pc: "map percent_of (concat (map texts platform_cell)) = [None, Some 15]"
    by (simp add: platform_cell_def percent_of_def is_digit_def)
  obtain t0 t1 t2 where t: "journey_row_table journey_steps 0 = Inr t0"
     "journey_row_table journey_steps 1 = Inr t1"
     "journey_row_table journey_steps 2 = Inr t2"
     and pt: "percents [t0] = []" "percents [t1] = []" "percents [t2] = [85]"
    using pc_rows by blast
  obtain u0 u1 u2 where u: "journey_row_table journey_steps 0 = Inr u0"
     "journey_row_table journey_steps 1 = Inr u1"
     "journey_row_table journey_steps 2 = Inr u2"
    and s: "assemble = Inr (
       [Paragraph ''User Journey Flow'' title_style,
        Paragraph ''How bots and players interact with the Moltblox platform'' subtitle_style]
       @ body1 u0 u1 u2 @ [PageBreak]
       @ [Paragraph ''Implementation Roadmap'' title_style,
          Paragraph ''5-phase path from development to production launch'' subtitle_style]
       @ body2 @ [PageBreak]
       @ [Paragraph ''System Architecture'' title_style,
          Paragraph ''Layered architecture from clients to blockchain'' subtitle_style]
       @ body3 @ [PageBreak]
       @ page4 [])" (is "_ = Inr ?s")
    using assemble_shape by blast
  have eq: "u0 = t0" "u1 = t1" "u2 = t2" using t u by simp_all
  have pl: "plain u0" "plain u1" "plain u2"
    using u journey_row_table_shape [of journey_steps 0] journey_row_table_shape [of journey_steps 1]
      journey_row_table_shape [of journey_steps 2] by auto
  note b1 = plain_bodies(1) [OF pl]
  note b2 = plain_bodies(2)
  note b3 = plain_bodies(3)
  have p1: "percents (body1 u0 u1 u2) = [85]"
    unfolding body1_def percents_stack_with [OF pc_seps(1)] eq
    using pt by (simp add: percents_def)
  have p2: "percents body2 = []"
    unfolding body2_def percents_stack_with [OF pc_seps(2)] by (rule pc_phases)
  have p3: "percents body3 = []"
    unfolding body3_def percents_stack_with [OF pc_seps(3)] by (rule pc_layers)
  have sp: "split_at_breaks [] ?s = [
       [Paragraph ''User Journey Flow'' title_style,
        Paragraph ''How bots and players interact with the Moltblox platform'' subtitle_style]
       @ body1 u0 u1 u2,
       [Paragraph ''Implementation Roadmap'' title_style,
          Paragraph ''5-phase path from development to production launch'' subtitle_style]
       @ body2,
       [Paragraph ''System Architecture'' title_style,
          Paragraph ''Layered architecture from clients to blockchain'' subtitle_style]
       @ body3,
       page4 []]"
    by (simp add: plain_split [OF b1] plain_split [OF b2] plain_split [OF b3] page4_observed(2))
  have ps: "map percents (split_at_breaks [] ?s) = [[85], [], [], [85, 15, 85, 15]]"
    unfolding sp by (simp only: list.map percents_append pc_headers p1 p2 p3 pc_page4 append_Nil)
  have ex: "\<exists>s. assemble = Inr s \<and>
          map percents (split_at_breaks [] s) = [[85], [], [], [85, 15, 85, 15]]"
    by (rule exI [of _ ?s]) (intro conjI s ps)
  show ?thesis
    apply (rule exI [of _ 85])
    apply (rule exI [of _ 15])
    apply (intro conjI refl j sl cc pc ex)
    apply simp
    done
qed

subsection \<open>The run of the script\<close>

lemma assemble_page1:
  "assemble = Inr st \<Longrightarrow> \<exists>s1. page1 [] = Inr s1 \<and> st = page4 (page3 (page2 s1))"
  by (auto simp: assemble_def split: sum.splits)

lemma assemble_total: "\<exists>st. assemble = Inr st"
  using assemble_shape by blast

lemma script_unfold:
  assumes "assemble = Inr st"
  shows "script P w =
    (case abspath P (dunder_file P) w of
       Inl e \<Rightarrow> Inl (e, [CallAbspath (dunder_file P)])
     | Inr a \<Rightarrow>
        (case build P (SimpleDocTemplate (output_path_of P a)) st page_bg page_bg w of
           Inl e \<Rightarrow> Inl (e, [CallAbspath (dunder_file P),
                          CallBuild (SimpleDocTemplate (output_path_of P a)) st page_bg page_bg])
         | Inr (w1, left) \<Rightarrow>
            (case py_print P (''Generated: '' @ output_path_of P a) w1 of
               Inl e \<Rightarrow> Inl (e, [CallAbspath (dunder_file P),
                          CallBuild (SimpleDocTemplate (output_path_of P a)) st page_bg page_bg,
                          CallPrint (''Generated: '' @ output_path_of P a)])
             | Inr w2 \<Rightarrow>
                (case getsize P (output_path_of P a) w2 of
                   Inl e \<Rightarrow> Inl (e, [CallAbspath (dunder_file P),
                          CallBuild (SimpleDocTemplate (output_path_of P a)) st page_bg page_bg,
                          CallPrint (''Generated: '' @ output_path_of P a),
                          CallGetsize (output_path_of P a)])
                 | Inr n \<Rightarrow>
                    (case py_print P (''Size: '' @ format_commas n @ '' bytes'') w2 of
                       Inl e \<Rightarrow> Inl (e, [CallAbspath (dunder_file P),
                          CallBuild (SimpleDocTemplate (output_path_of P a)) st page_bg page_bg,
                          CallPrint (''Generated: '' @ output_path_of P a),
                          CallGetsize (output_path_of P a),
                          CallPrint (''Size: '' @ format_commas n @ '' bytes'')])
                     | Inr w3 \<Rightarrow> Inr \<lparr> story = left, calls = [CallAbspath (dunder_file P),
                          CallBuild (SimpleDocTemplate (output_path_of P a)) st page_bg page_bg,
                          CallPrint (''Generated: '' @ output_path_of P a),
                          CallGetsize (output_path_of P a),
                          CallPrint (''Size: '' @ format_commas n @ '' bytes'')],
                          world = w3 \<rparr>)))))"
proof -
  obtain s1 where s1: "page1 [] = Inr s1" "st = page4 (page3 (page2 s1))"
    using assemble_page1 [OF assms] by blast
  show ?thesis
    unfolding script_def Let_def
    by (simp add: s1 page1_step_def page2_step_def page3_step_def page4_step_def build_step_def
          print_generated_step_def print_size_step_def Let_def split: sum.splits prod.splits)
qed

lemma demo_sel:
  "dunder_file (demo_platform fail) = ''/repo/docs/generate_flowcharts_pdf.py''"
  "abspath (demo_platform fail) p w =
     (if ''abspath'' \<in> set fail then Inl (Raised ''FileNotFoundError'') else Inr p)"
  "output_path_of (demo_platform fail) ''/repo/docs/generate_flowcharts_pdf.py''
     = ''/repo/docs/moltblox-flowcharts.pdf''"
  "build (demo_platform fail) d st f l w =
     (if ''build'' \<in> set fail then Inl (Raised ''PermissionError'')
      else Inr (w\<lparr>files := (filename d, 48213) # files w,
                   received := received w @ [(filename d, st, f, l)]\<rparr>, []))"
  "getsize (demo_platform fail) p w =
     (if ''getsize'' \<in> set fail then Inl (Raised ''OSError'')
      else (case map_of (files w) p of
              None \<Rightarrow> Inl (Raised ''FileNotFoundError'')
            | Some n \<Rightarrow> Inr n))"
  "py_print (demo_platform fail) line w =
     (if ''print'' \<in> set fail \<or> (''print2'' \<in> set fail \<and> printed w \<noteq> [])
      then Inl (Raised ''BrokenPipeError'')
      else Inr (w\<lparr>printed := printed w @ [line]\<rparr>))"
  by (simp_all add: demo_platform_def output_path_of_def demo_dirname_def)

lemma format_commas_demo: "format_commas 48213 = ''48,213''"
  by (simp add: format_commas_def)

lemma demo_run:
  assumes "assemble = Inr st"
  shows "script (demo_platform []) demo_world0 =
     Inr \<lparr> story = [],
           calls = [CallAbspath ''/repo/docs/generate_flowcharts_pdf.py'',
                    CallBuild (SimpleDocTemplate ''/repo/docs/moltblox-flowcharts.pdf'') st
                      page_bg page_bg,
                    CallPrint ''Generated: /repo/docs/moltblox-flowcharts.pdf'',
                    CallGetsize ''/repo/docs/moltblox-flowcharts.pdf'',
                    CallPrint ''Size: 48,213 bytes''],
           world = \<lparr> files = [(''/repo/docs/moltblox-flowcharts.pdf'', 48213)],
                     printed = [''Generated: /repo/docs/moltblox-flowcharts.pdf'',
                                ''Size: 48,213 bytes''],
                     received = [(''/repo/docs/moltblox-flowcharts.pdf'', st, page_bg, page_bg)] \<rparr> \<rparr>"
  unfolding script_unfold [OF assms]
  by (simp add: demo_sel demo_world0_def format_commas_demo SimpleDocTemplate_def)

lemma demo_run_other:
  assumes "assemble = Inr st"
  shows "script (demo_platform [''verbose''])
           \<lparr> files = [(''/tmp/old.pdf'', 7)], printed = [], received = [] \<rparr> =
     Inr \<lparr> story = [],
           calls = [CallAbspath ''/repo/docs/generate_flowcharts_pdf.py'',
                    CallBuild (SimpleDocTemplate ''/repo/docs/moltblox-flowcharts.pdf'') st
                      page_bg page_bg,
                    CallPrint ''Generated: /repo/docs/moltblox-flowcharts.pdf'',
                    CallGetsize ''/repo/docs/moltblox-flowcharts.pdf'',
                    CallPrint ''Size: 48,213 bytes''],
           world = \<lparr> files = [(''/repo/docs/moltblox-flowcharts.pdf'', 48213),
                              (''/tmp/old.pdf'', 7)],
                     printed = [''Generated: /repo/docs/moltblox-flowcharts.pdf'',
                                ''Size: 48,213 bytes''],
                     received = [(''/repo/docs/moltblox-flowcharts.pdf'', st, page_bg, page_bg)] \<rparr> \<rparr>"
  unfolding script_unfold [OF assms]
  by (simp add: demo_sel format_commas_demo SimpleDocTemplate_def)




text \<open>
  Claim C5. The build entry point is invoked exactly once, after the content assembly.
  In a completed run the final world is the result of one application of the
  platform's build, to the document template, the fully assembled story and \<open>page_bg\<close>
  as both callbacks, followed by the two prints; the log has this one build call. The
  script appends nothing after the call: the story at the end of the run is what the
  build left in the list. A run that ends in an error either has not reached the
  build, or has applied it once to the same arguments.
\<close>

theorem build_called_once:
  "\<exists>st. assemble = Inr st \<and>
     (\<forall>(P :: 'w platform) w s. script P w = Inr s \<longrightarrow>
        (\<exists>a w1 left w2 n.
           abspath P (dunder_file P) w = Inr a \<and>
           build P (SimpleDocTemplate (output_path_of P a)) st page_bg page_bg w = Inr (w1, left) \<and>
           py_print P (''Generated: '' @ output_path_of P a) w1 = Inr w2 \<and>
           getsize P (output_path_of P a) w2 = Inr n \<and>
           py_print P (''Size: '' @ format_commas n @ '' bytes'') w2 = Inr (world s) \<and>
           builds (calls s) = [(SimpleDocTemplate (output_path_of P a), st, page_bg, page_bg)] \<and>
           story s = left)) \<and>
     (\<forall>(P :: 'w platform) w e cs. script P w = Inl (e, cs) \<longrightarrow>
        builds cs = [] \<or>
        (\<exists>a. abspath P (dunder_file P) w = Inr a \<and>
             builds cs = [(SimpleDocTemplate (output_path_of P a), st, page_bg, page_bg)] \<and>
             (build P (SimpleDocTemplate (output_path_of P a)) st page_bg page_bg w = Inl e \<or>
              (\<exists>w1 left. build P (SimpleDocTemplate (output_path_of P a)) st page_bg page_bg w
                             = Inr (w1, left)))))"
proof -
  obtain st where st: "assemble = Inr st" using assemble_total by blast
  have ok: "\<exists>a w1 left w2 n.
           abspath P (dunder_file P) w = Inr a \<and>
           build P (SimpleDocTemplate (output_path_of P a)) st page_bg page_bg w = Inr (w1, left) \<and>
           py_print P (''Generated: '' @ output_path_of P a) w1 = Inr w2 \<and>
           getsize P (output_path_of P a) w2 = Inr n \<and>
           py_print P (''Size: '' @ format_commas n @ '' bytes'') w2 = Inr (world s) \<and>
           builds (calls s) = [(SimpleDocTemplate (output_path_of P a), st, page_bg, page_bg)] \<and>
           story s = left"
    if "script P w = Inr s" for P :: "'w platform" and w s
    using that unfolding script_unfold [OF st]
    by (auto split: sum.splits prod.splits)
  have bad: "builds cs = [] \<or>
        (\<exists>a. abspath P (dunder_file P) w = Inr a \<and>
             builds cs = [(SimpleDocTemplate (output_path_of P a), st, page_bg, page_bg)] \<and>
             (build P (SimpleDocTemplate (output_path_of P a)) st page_bg page_bg w = Inl e \<or>
              (\<exists>w1 left. build P (SimpleDocTemplate (output_path_of P a)) st page_bg page_bg w
                             = Inr (w1, left))))"
    if "script P w = Inl (e, cs)" for P :: "'w platform" and w e cs
    using that unfolding script_unfold [OF st]
    by (auto split: sum.splits prod.splits)
  show ?thesis
    apply (rule exI [of _ st])
    apply (intro conjI allI impI)
      apply (rule st)
     apply (erule ok)
    apply (erule bad)
    done
qed

theorem build_called_once_witness:
  "\<exists>s st. script (demo_platform []) demo_world0 = Inr s \<and>
       assemble = Inr st \<and>
       received (world s) = [(''/repo/docs/moltblox-flowcharts.pdf'', st, page_bg, page_bg)] \<and>
       builds (calls s) =
         [(SimpleDocTemplate ''/repo/docs/moltblox-flowcharts.pdf'', st, page_bg, page_bg)] \<and>
       story s = []"
proof -
  from build_called_once [where ?'w = demo_world]
  obtain st where st: "assemble = Inr st"
    and ok: "\<And>(P :: demo_world platform) w s. script P w = Inr s \<Longrightarrow>
        (\<exists>a w1 left w2 n.
           abspath P (dunder_file P) w = Inr a \<and>
           build P (SimpleDocTemplate (output_path_of P a)) st page_bg page_bg w = Inr (w1, left) \<and>
           py_print P (''Generated: '' @ output_path_of P a) w1 = Inr w2 \<and>
           getsize P (output_path_of P a) w2 = Inr n \<and>
           py_print P (''Size: '' @ format_commas n @ '' bytes'') w2 = Inr (world s) \<and>
           builds (calls s) = [(SimpleDocTemplate (output_path_of P a), st, page_bg, page_bg)] \<and>
           story s = left)"
    by blast
  note r = demo_run [OF st]
  from ok [OF r] obtain a w1 left w2 n where
    a: "abspath (demo_platform []) (dunder_file (demo_platform [])) demo_world0 = Inr a"
    and b: "build (demo_platform []) (SimpleDocTemplate (output_path_of (demo_platform []) a)) st
              page_bg page_bg demo_world0 = Inr (w1, left)"
    and p1: "py_print (demo_platform []) (''Generated: '' @ output_path_of (demo_platform []) a) w1
              = Inr w2"
    and g: "getsize (demo_platform []) (output_path_of (demo_platform []) a) w2 = Inr n"
    and p2: "\<exists>s. script (demo_platform []) demo_world0 = Inr s \<and>
              py_print (demo_platform []) (''Size: '' @ format_commas n @ '' bytes'') w2
                = Inr (world s) \<and>
              builds (calls s) =
                [(SimpleDocTemplate (output_path_of (demo_platform []) a), st, page_bg, page_bg)] \<and>
              story s = left"
    using r by auto
  from a have a': "a = ''/repo/docs/generate_flowcharts_pdf.py''"
    by (simp add: demo_sel)
  from b have w1: "w1 = \<lparr> files = [(''/repo/docs/moltblox-flowcharts.pdf'', 48213)],
                           printed = [],
                           received = [(''/repo/docs/moltblox-flowcharts.pdf'', st, page_bg, page_bg)] \<rparr>"
    and left: "left = []"
    unfolding a' by (simp_all add: demo_sel demo_world0_def SimpleDocTemplate_def)
  from p1 have w2: "received w2 = [(''/repo/docs/moltblox-flowcharts.pdf'', st, page_bg, page_bg)]"
    unfolding a' w1 by (auto simp: demo_sel)
  from p2 obtain s where s: "script (demo_platform []) demo_world0 = Inr s"
    and ws: "py_print (demo_platform []) (''Size: '' @ format_commas n @ '' bytes'') w2
                = Inr (world s)"
    and bs: "builds (calls s) =
                [(SimpleDocTemplate (output_path_of (demo_platform []) a), st, page_bg, page_bg)]"
    and ss: "story s = left"
    by blast
  from ws have "world s = w2\<lparr>printed := printed w2 @ [''Size: '' @ format_commas n @ '' bytes'']\<rparr>"
    by (auto simp: demo_sel split: if_splits)
  then have rs: "received (world s) =
      [(''/repo/docs/moltblox-flowcharts.pdf'', st, page_bg, page_bg)]"
    using w2 by simp
  show ?thesis
    apply (rule exI [of _ s], rule exI [of _ st])
    using s st rs bs ss left unfolding a' by (simp add: demo_sel)
qed

text \<open>
  Claim C4. The script handles no error. Whichever call to the outside raises
  (\<^verbatim>\<open>abspath\<close>, the build, the first \<^verbatim>\<open>print\<close>, \<^verbatim>\<open>getsize\<close>, the second \<^verbatim>\<open>print\<close>), the run
  ends with exactly this error; the log ends with the failing call, no call is made
  again and none is made afterwards. When no call to the outside raises, the run
  completes: the script raises no error of its own.
\<close>

theorem errors_propagate_uncaught:
  "\<exists>st. assemble = Inr st \<and>
     (\<forall>(P :: 'w platform) w e a w1 left w2 n w3.
        (let c0 = CallAbspath (dunder_file P);
             output_path = output_path_of P a;
             doc = SimpleDocTemplate output_path;
             c1 = CallBuild doc st page_bg page_bg;
             line1 = ''Generated: '' @ output_path;
             c2 = CallPrint line1;
             c3 = CallGetsize output_path;
             line2 = ''Size: '' @ format_commas n @ '' bytes'';
             c4 = CallPrint line2
         in
           (abspath P (dunder_file P) w = Inl e \<longrightarrow> script P w = Inl (e, [c0])) \<and>
           (abspath P (dunder_file P) w = Inr a \<longrightarrow>
              (build P doc st page_bg page_bg w = Inl e \<longrightarrow> script P w = Inl (e, [c0, c1])) \<and>
              (build P doc st page_bg page_bg w = Inr (w1, left) \<longrightarrow>
                 (py_print P line1 w1 = Inl e \<longrightarrow> script P w = Inl (e, [c0, c1, c2])) \<and>
                 (py_print P line1 w1 = Inr w2 \<longrightarrow>
                    (getsize P output_path w2 = Inl e \<longrightarrow>
                       script P w = Inl (e, [c0, c1, c2, c3])) \<and>
                    (getsize P output_path w2 = Inr n \<longrightarrow>
                       (py_print P line2 w2 = Inl e \<longrightarrow>
                          script P w = Inl (e, [c0, c1, c2, c3, c4])) \<and>
                       (py_print P line2 w2 = Inr w3 \<longrightarrow>
                          script P w =
                            Inr \<lparr> story = left, calls = [c0, c1, c2, c3, c4], world = w3 \<rparr>)))))))"
proof -
  obtain st where st: "assemble = Inr st" using assemble_total by blast
  have "\<forall>(P :: 'w platform) w e a w1 left w2 n w3.
        (let c0 = CallAbspath (dunder_file P);
             output_path = output_path_of P a;
             doc = SimpleDocTemplate output_path;
             c1 = CallBuild doc st page_bg page_bg;
             line1 = ''Generated: '' @ output_path;
             c2 = CallPrint line1;
             c3 = CallGetsize output_path;
             line2 = ''Size: '' @ format_commas n @ '' bytes'';
             c4 = CallPrint line2
         in
           (abspath P (dunder_file P) w = Inl e \<longrightarrow> script P w = Inl (e, [c0])) \<and>
           (abspath P (dunder_file P) w = Inr a \<longrightarrow>
              (build P doc st page_bg page_bg w = Inl e \<longrightarrow> script P w = Inl (e, [c0, c1])) \<and>
              (build P doc st page_bg page_bg w = Inr (w1, left) \<longrightarrow>
                 (py_print P line1 w1 = Inl e \<longrightarrow> script P w = Inl (e, [c0, c1, c2])) \<and>
                 (py_print P line1 w1 = Inr w2 \<longrightarrow>
                    (getsize P output_path w2 = Inl e \<longrightarrow>
                       script P w = Inl (e, [c0, c1, c2, c3])) \<and>
                    (getsize P output_path w2 = Inr n \<longrightarrow>
                       (py_print P line2 w2 = Inl e \<longrightarrow>
                          script P w = Inl (e, [c0, c1, c2, c3, c4])) \<and>
                       (py_print P line2 w2 = Inr w3 \<longrightarrow>
                          script P w =
                            Inr \<lparr> story = left, calls = [c0, c1, c2, c3, c4], world = w3 \<rparr>))))))"
    unfolding Let_def script_unfold [OF st] by simp
  with st show ?thesis by (intro exI conjI)
qed

theorem errors_propagate_uncaught_witness:
  "(\<exists>cs. script (demo_platform [''abspath'']) demo_world0 = Inl (Raised ''FileNotFoundError'', cs)
         \<and> length cs = 1) \<and>
   (\<exists>cs. script (demo_platform [''build'']) demo_world0 = Inl (Raised ''PermissionError'', cs)
         \<and> length cs = 2 \<and> length (builds cs) = 1) \<and>
   (\<exists>cs. script (demo_platform [''print'']) demo_world0 = Inl (Raised ''BrokenPipeError'', cs)
         \<and> length cs = 3) \<and>
   (\<exists>cs. script (demo_platform [''getsize'']) demo_world0 = Inl (Raised ''OSError'', cs)
         \<and> length cs = 4) \<and>
   (\<exists>cs. script (demo_platform [''print2'']) demo_world0 = Inl (Raised ''BrokenPipeError'', cs)
         \<and> length cs = 5) \<and>
   (\<exists>s. script (demo_platform []) demo_world0 = Inr s \<and> length (calls s) = 5 \<and>
        printed (world s) =
          [''Generated: /repo/docs/moltblox-flowcharts.pdf'', ''Size: 48,213 bytes''])"
proof -
  from errors_propagate_uncaught [where ?'w = demo_world]
  obtain st where st: "assemble = Inr st"
    and H: "\<forall>(P :: demo_world platform) w e a w1 left w2 n w3.
        (let c0 = CallAbspath (dunder_file P);
             output_path = output_path_of P a;
             doc = SimpleDocTemplate output_path;
             c1 = CallBuild doc st page_bg page_bg;
             line1 = ''Generated: '' @ output_path;
             c2 = CallPrint line1;
             c3 = CallGetsize output_path;
             line2 = ''Size: '' @ format_commas n @ '' bytes'';
             c4 = CallPrint line2
         in
           (abspath P (dunder_file P) w = Inl e \<longrightarrow> script P w = Inl (e, [c0])) \<and>
           (abspath P (dunder_file P) w = Inr a \<longrightarrow>
              (build P doc st page_bg page_bg w = Inl e \<longrightarrow> script P w = Inl (e, [c0, c1])) \<and>
              (build P doc st page_bg page_bg w = Inr (w1, left) \<longrightarrow>
                 (py_print P line1 w1 = Inl e \<longrightarrow> script P w = Inl (e, [c0, c1, c2])) \<and>
                 (py_print P line1 w1 = Inr w2 \<longrightarrow>
                    (getsize P output_path w2 = Inl e \<longrightarrow>
                       script P w = Inl (e, [c0, c1, c2, c3])) \<and>
                    (getsize P output_path w2 = Inr n \<longrightarrow>
                       (py_print P line2 w2 = Inl e \<longrightarrow>
                          script P w = Inl (e, [c0, c1, c2, c3, c4])) \<and>
                       (py_print P line2 w2 = Inr w3 \<longrightarrow>
                          script P w =
                            Inr \<lparr> story = left, calls = [c0, c1, c2, c3, c4], world = w3 \<rparr>))))))"
    by blast
  note I = H [unfolded Let_def, rule_format,
      where w = demo_world0 and a = "''/repo/docs/generate_flowcharts_pdf.py''"
        and ?w1.0 = "\<lparr> files = [(''/repo/docs/moltblox-flowcharts.pdf'', 48213)], printed = [],
                    received = [(''/repo/docs/moltblox-flowcharts.pdf'', st, page_bg, page_bg)] \<rparr>"
        and left = "[]"
        and ?w2.0 = "\<lparr> files = [(''/repo/docs/moltblox-flowcharts.pdf'', 48213)],
                    printed = [''Generated: /repo/docs/moltblox-flowcharts.pdf''],
                    received = [(''/repo/docs/moltblox-flowcharts.pdf'', st, page_bg, page_bg)] \<rparr>"
        and n = 48213
        and ?w3.0 = "\<lparr> files = [(''/repo/docs/moltblox-flowcharts.pdf'', 48213)],
                    printed = [''Generated: /repo/docs/moltblox-flowcharts.pdf'',
                               ''Size: 48,213 bytes''],
                    received = [(''/repo/docs/moltblox-flowcharts.pdf'', st, page_bg, page_bg)] \<rparr>"]
  have 1: "\<exists>cs. script (demo_platform [''abspath'']) demo_world0 = Inl (Raised ''FileNotFoundError'', cs)
         \<and> length cs = 1"
    using I [where P = "demo_platform [''abspath'']" and e = "Raised ''FileNotFoundError''"]
    by (simp add: demo_sel demo_world0_def format_commas_demo SimpleDocTemplate_def)
  have 2: "\<exists>cs. script (demo_platform [''build'']) demo_world0 = Inl (Raised ''PermissionError'', cs)
         \<and> length cs = 2 \<and> length (builds cs) = 1"
    using I [where P = "demo_platform [''build'']" and e = "Raised ''PermissionError''"]
    by (simp add: demo_sel demo_world0_def format_commas_demo SimpleDocTemplate_def)
  have 3: "\<exists>cs. script (demo_platform [''print'']) demo_world0 = Inl (Raised ''BrokenPipeError'', cs)
         \<and> length cs = 3"
    using I [where P = "demo_platform [''print'']" and e = "Raised ''BrokenPipeError''"]
    by (simp add: demo_sel demo_world0_def format_commas_demo SimpleDocTemplate_def)
  have 4: "\<exists>cs. script (demo_platform [''getsize'']) demo_world0 = Inl (Raised ''OSError'', cs)
         \<and> length cs = 4"
    using I [where P = "demo_platform [''getsize'']" and e = "Raised ''OSError''"]
    by (simp add: demo_sel demo_world0_def format_commas_demo SimpleDocTemplate_def)
  have 5: "\<exists>cs. script (demo_platform [''print2'']) demo_world0 = Inl (Raised ''BrokenPipeError'', cs)
         \<and> length cs = 5"
    using I [where P = "demo_platform [''print2'']" and e = "Raised ''BrokenPipeError''"]
    by (simp add: demo_sel demo_world0_def format_commas_demo SimpleDocTemplate_def)
  have 6: "\<exists>s. script (demo_platform []) demo_world0 = Inr s \<and> length (calls s) = 5 \<and>
        printed (world s) =
          [''Generated: /repo/docs/moltblox-flowcharts.pdf'', ''Size: 48,213 bytes'']"
    using I [where P = "demo_platform []" and e = "IndexError"]
    by (simp add: demo_sel demo_world0_def format_commas_demo SimpleDocTemplate_def)
  show ?thesis by (intro conjI 1 2 3 4 5 6)
qed

lemma handed_cases:
  assumes "assemble = Inr st"
  shows "handed_to_build (script P w) = [] \<or> handed_to_build (script P w) = [(st, page_bg, page_bg)]"
  unfolding script_unfold [OF assms] handed_to_build_def
  by (simp split: sum.splits prod.splits)

lemma length_stack_with:
  "length (stack_with sep ps) = length ps + length sep * (length ps - 1)"
  by (induction sep ps rule: stack_with.induct) simp_all

lemma assemble_length:
  assumes "assemble = Inr st"
  shows "length st = 60"
proof -
  obtain u0 u1 u2 where s: "assemble = Inr (
       [Paragraph ''User Journey Flow'' title_style,
        Paragraph ''How bots and players interact with the Moltblox platform'' subtitle_style]
       @ body1 u0 u1 u2 @ [PageBreak]
       @ [Paragraph ''Implementation Roadmap'' title_style,
          Paragraph ''5-phase path from development to production launch'' subtitle_style]
       @ body2 @ [PageBreak]
       @ [Paragraph ''System Architecture'' title_style,
          Paragraph ''Layered architecture from clients to blockchain'' subtitle_style]
       @ body3 @ [PageBreak]
       @ page4 [])"
    using assemble_shape by blast
  have n: "length phases = 5" "length layers = 6"
    by (simp_all add: phases_def layers_def)
  have l: "length (body1 u0 u1 u2) = 9" "length body2 = 17" "length body3 = 11"
    "length (page4 []) = 14"
    by (simp_all add: body1_def body2_def body3_def length_stack_with n page4_def)
  show ?thesis
    using assms unfolding s by (auto simp: l)
qed

text \<open>
  Claim C6. Content assembly is deterministic. There is one story, the assembled one,
  such that on every platform and in every world a run that reaches the build applies
  it to this story with \<open>page_bg\<close> as both callbacks: the log of any run shows no other
  story, any two runs that reach the build show the same one, a completed run is the
  outcome of the platform's build on it, and a run that ends at the build raised what
  the build on it raised.
\<close>

theorem assembly_deterministic:
  "\<exists>st. assemble = Inr st \<and>
     (\<forall>(P :: 'a platform) w (P' :: 'b platform) w'.
        (handed_to_build (script P w) = [] \<or>
         handed_to_build (script P w) = [(st, page_bg, page_bg)]) \<and>
        (handed_to_build (script P w) = [] \<or> handed_to_build (script P' w') = [] \<or>
         handed_to_build (script P w) = handed_to_build (script P' w')) \<and>
        (\<forall>a. abspath P (dunder_file P) w = Inr a \<longrightarrow>
           (\<forall>s. script P w = Inr s \<longrightarrow>
              (\<exists>w1. build P (SimpleDocTemplate (output_path_of P a)) st page_bg page_bg w
                       = Inr (w1, story s))) \<and>
           (\<forall>e. script P w =
                   Inl (e, [CallAbspath (dunder_file P),
                            CallBuild (SimpleDocTemplate (output_path_of P a)) st page_bg page_bg])
                 \<longrightarrow> build P (SimpleDocTemplate (output_path_of P a)) st page_bg page_bg w = Inl e)))"
proof -
  obtain st where st: "assemble = Inr st" using assemble_total by blast
  have a: "handed_to_build (script P w) = [] \<or>
         handed_to_build (script P w) = [(st, page_bg, page_bg)]"
    for P :: "'a platform" and w
    by (rule handed_cases [OF st])
  have b: "handed_to_build (script P w) = [] \<or> handed_to_build (script P' w') = [] \<or>
         handed_to_build (script P w) = handed_to_build (script P' w')"
    for P :: "'a platform" and w and P' :: "'b platform" and w'
    using handed_cases [OF st, of P w] handed_cases [OF st, of P' w'] by auto
  have c: "\<exists>w1. build P (SimpleDocTemplate (output_path_of P a)) st page_bg page_bg w
                       = Inr (w1, story s)"
    if "abspath P (dunder_file P) w = Inr a" "script P w = Inr s"
    for P :: "'a platform" and w a s
    using that unfolding script_unfold [OF st]
    by (auto split: sum.splits prod.splits)
  have d: "build P (SimpleDocTemplate (output_path_of P a)) st page_bg page_bg w = Inl e"
    if "abspath P (dunder_file P) w = Inr a"
      "script P w = Inl (e, [CallAbspath (dunder_file P),
                            CallBuild (SimpleDocTemplate (output_path_of P a)) st page_bg page_bg])"
    for P :: "'a platform" and w a e
    using that unfolding script_unfold [OF st]
    by (auto split: sum.splits prod.splits)
  show ?thesis
    apply (rule exI [of _ st])
    apply (intro conjI allI impI)
        apply (rule st)
       apply (rule a)
      apply (rule b)
     apply (erule (1) c)
    apply (erule (1) d)
    done
qed

theorem assembly_deterministic_witness:
  "\<exists>s s' st. script (demo_platform []) demo_world0 = Inr s \<and>
     script (demo_platform [''verbose''])
       \<lparr> files = [(''/tmp/old.pdf'', 7)], printed = [], received = [] \<rparr> = Inr s' \<and>
     files (world s) \<noteq> files (world s') \<and>
     assemble = Inr st \<and> length st = 60 \<and>
     received (world s) = [(''/repo/docs/moltblox-flowcharts.pdf'', st, page_bg, page_bg)] \<and>
     received (world s') = received (world s) \<and>
     handed_to_build (script (demo_platform []) demo_world0) = [(st, page_bg, page_bg)] \<and>
     handed_to_build (script (demo_platform [''verbose''])
       \<lparr> files = [(''/tmp/old.pdf'', 7)], printed = [], received = [] \<rparr>)
       = [(st, page_bg, page_bg)] \<and>
     (\<exists>w1. build (demo_platform [])
             (SimpleDocTemplate (output_path_of (demo_platform [])
                ''/repo/docs/generate_flowcharts_pdf.py'')) st page_bg page_bg demo_world0
           = Inr (w1, story s))"
proof -
  let ?w' = "\<lparr> files = [(''/tmp/old.pdf'', 7)], printed = [], received = [] \<rparr>"
  from assembly_deterministic [where ?'a = demo_world and ?'b = demo_world]
  obtain st where st: "assemble = Inr st"
    and H: "\<And>(P :: demo_world platform) w (P' :: demo_world platform) w'.
        (handed_to_build (script P w) = [] \<or>
         handed_to_build (script P w) = [(st, page_bg, page_bg)]) \<and>
        (handed_to_build (script P w) = [] \<or> handed_to_build (script P' w') = [] \<or>
         handed_to_build (script P w) = handed_to_build (script P' w')) \<and>
        (\<forall>a. abspath P (dunder_file P) w = Inr a \<longrightarrow>
           (\<forall>s. script P w = Inr s \<longrightarrow>
              (\<exists>w1. build P (SimpleDocTemplate (output_path_of P a)) st page_bg page_bg w
                       = Inr (w1, story s))) \<and>
           (\<forall>e. script P w =
                   Inl (e, [CallAbspath (dunder_file P),
                            CallBuild (SimpleDocTemplate (output_path_of P a)) st page_bg page_bg])
                 \<longrightarrow> build P (SimpleDocTemplate (output_path_of P a)) st page_bg page_bg w = Inl e))"
    by blast
  note r = demo_run [OF st]
  note r' = demo_run_other [OF st]
  note len = assemble_length [OF st]
  have h1: "handed_to_build (script (demo_platform []) demo_world0) = [(st, page_bg, page_bg)]"
    using H [of "demo_platform []" demo_world0 "demo_platform [''verbose'']" ?w', THEN conjunct1]
    unfolding r by (simp add: handed_to_build_def)
  have h2: "handed_to_build (script (demo_platform [''verbose'']) ?w') = [(st, page_bg, page_bg)]"
    using H [of "demo_platform []" demo_world0 "demo_platform [''verbose'']" ?w',
             THEN conjunct2, THEN conjunct1] h1
    unfolding r' by (simp add: handed_to_build_def)
  have ab: "abspath (demo_platform []) (dunder_file (demo_platform [])) demo_world0 =
     Inr ''/repo/docs/generate_flowcharts_pdf.py''"
    by (simp add: demo_sel)
  note h3 = H [of "demo_platform []" demo_world0 "demo_platform [''verbose'']" ?w',
               THEN conjunct2, THEN conjunct2, rule_format, OF ab, THEN conjunct1,
               rule_format, OF r]
  show ?thesis
    apply (rule exI, rule exI, rule exI [of _ st])
    apply (intro conjI)
             apply (rule r)
            apply (rule r')
           apply simp
          apply (rule st)
         apply (rule len)
        apply simp
       apply simp
      apply (rule h1)
     apply (rule h2)
    apply (rule h3)
    done
qed

end
